theory Spec2Isabelle
  imports Complex_Main
begin

section \<open>Python values, exceptions and one-row data frames\<close>

text \<open>
  The service handles dynamically typed values: form fields are strings, a JSON body is
  any JSON value, and the keyword arguments of a rendered template or of \<open>jsonify\<close> are
  strings, floats, booleans, \<open>None\<close> and dictionaries. One datatype covers them all.
  A Python \<open>dict\<close> keeps insertion order, so it is an association list. A float64 is
  the real number it denotes, so comparing two floats is comparing these numbers; there
  is no NaN or infinity. Arithmetic on floats rounds: the one product the handlers
  compute is an operation of the environment (see \<open>float_mul\<close> below).
\<close>

datatype pyval =
    PNone
  | PBool bool
  | PInt int
  | PFloat real
  | PStr string
  | PList "pyval list"
  | PDict "(string \<times> pyval) list"

text \<open>
  An exception in flight has a class and a message (\<open>str(e)\<close>). \<open>ValueError\<close> stands
  for that class and its subclasses, which is what \<open>except ValueError\<close> catches.
\<close>

datatype exn_class = ValueError | KeyError | AttributeError | TypeError | OtherError string

datatype exn = Exn (exn_class: exn_class) (exn_msg: string)

text \<open>
  \<open>pd.DataFrame([data])\<close> is a frame of one row whose columns are the keys of
  \<open>data\<close> in insertion order: the list of (column, cell) pairs.
\<close>

type_synonym frame = "(string \<times> pyval) list"

definition columns :: "frame \<Rightarrow> string list" where
  "columns df = map fst df"

definition EXPECTED_COLUMNS :: "string list" where
  "EXPECTED_COLUMNS =
     [''gender'', ''SeniorCitizen'', ''Partner'', ''Dependents'', ''tenure'',
      ''PhoneService'', ''MultipleLines'', ''InternetService'', ''OnlineSecurity'',
      ''OnlineBackup'', ''DeviceProtection'', ''TechSupport'', ''StreamingTV'',
      ''StreamingMovies'', ''Contract'', ''PaperlessBilling'', ''PaymentMethod'',
      ''MonthlyCharges'', ''TotalCharges'']"

text \<open>\<open>d.pop(k, None)\<close>: the value stored under \<open>k\<close> (or \<open>None\<close>) and the dict without \<open>k\<close>.\<close>

definition dict_pop :: "string \<Rightarrow> (string \<times> 'v) list \<Rightarrow> 'v option \<times> (string \<times> 'v) list" where
  "dict_pop k d = (map_of d k, filter (\<lambda>kv. fst kv \<noteq> k) d)"

text \<open>\<open>[col for col in EXPECTED_COLUMNS if col not in input_df.columns]\<close>\<close>

definition missing_columns :: "frame \<Rightarrow> string list" where
  "missing_columns input_df = filter (\<lambda>col. col \<notin> set (columns input_df)) EXPECTED_COLUMNS"

text \<open>\<open>sep.join(xs)\<close>\<close>

fun join :: "string \<Rightarrow> string list \<Rightarrow> string" where
  "join sep [] = []"
| "join sep [x] = x"
| "join sep (x # y # ys) = x @ sep @ join sep (y # ys)"

text \<open>
  \<open>input_df[cols]\<close>: the listed columns, in the listed order; pandas raises
  \<open>KeyError\<close> when one of them is not a column of the frame. The handlers validate
  before they select, so they never reach that case; its message is not modelled beyond
  naming the first absent column.
\<close>

fun select_columns :: "string list \<Rightarrow> frame \<Rightarrow> exn + frame" where
  "select_columns [] df = Inr []"
| "select_columns (c # cs) df =
     (case map_of df c of
        None \<Rightarrow> Inl (Exn KeyError (''not in index: '' @ c))
      | Some v \<Rightarrow>
          (case select_columns cs df of
             Inl e \<Rightarrow> Inl e
           | Inr r \<Rightarrow> Inr ((c, v) # r)))"

section \<open>The loaded artifact and the server state\<close>

text \<open>
  \<open>model = joblib.load("model.pkl")\<close> is whatever object the file holds; the handlers use
  two expressions of it. \<open>art_predict m df\<close> is \<open>model.predict(input_df)[0]\<close> and
  \<open>art_predict_proba m df\<close> is \<open>model.predict_proba(input_df)[0][1]\<close>; an exception
  raised by the call or by the indexing is the \<open>Inl\<close> outcome. The artifact is read-only,
  so both are functions of the frame alone.
\<close>

record artifact =
  art_predict :: "frame \<Rightarrow> exn + int"
  art_predict_proba :: "frame \<Rightarrow> exn + real"

text \<open>
  The process environment: the module-level \<open>model\<close>; \<open>traceback.format_exc()\<close>,
  which gives the stack trace of the exception being handled; and the product of two
  floats as the interpreter computes it, \<open>float_mul a b\<close> for \<open>a * b\<close>, which is the
  float64 nearest to the exact product. How it rounds is not modelled: the handlers are
  stated for whatever product the environment computes.
\<close>

record env =
  model :: artifact
  format_exc :: "exn \<Rightarrow> string"
  float_mul :: "real \<Rightarrow> real \<Rightarrow> real"

text \<open>
  What a request leaves behind: the lines written with \<open>app.logger.error\<close>, and the
  artifact operations that were invoked, in order, with the frame each one received.
\<close>

datatype call = CallPredict frame | CallPredictProba frame

record server_state =
  log :: "string list"
  calls :: "call list"

definition invoke_predict :: "env \<Rightarrow> frame \<Rightarrow> server_state \<Rightarrow> (exn + int) \<times> server_state" where
  "invoke_predict e df st = (art_predict (model e) df, st\<lparr>calls := calls st @ [CallPredict df]\<rparr>)"

definition invoke_predict_proba :: "env \<Rightarrow> frame \<Rightarrow> server_state \<Rightarrow> (exn + real) \<times> server_state" where
  "invoke_predict_proba e df st =
     (art_predict_proba (model e) df, st\<lparr>calls := calls st @ [CallPredictProba df]\<rparr>)"

section \<open>Formatting a float with two decimals\<close>

text \<open>
  \<open>f"{x:.2f}"\<close> prints the decimal nearest to \<open>x\<close> with two digits after the point,
  a tie going to the even neighbour, with a leading minus sign for a negative \<open>x\<close>.
\<close>

definition digit_char :: "nat \<Rightarrow> char" where
  "digit_char d = ''0123456789'' ! d"

function str_nat :: "nat \<Rightarrow> string" where
  "str_nat n = (if n < 10 then [digit_char n] else str_nat (n div 10) @ [digit_char (n mod 10)])"
  by pat_completeness auto
termination
  by (relation "measure id") auto

definition round_half_even :: "real \<Rightarrow> nat" where
  "round_half_even r =
     (let f = nat \<lfloor>r\<rfloor>; d = r - of_int \<lfloor>r\<rfloor>
      in if d < 1 / 2 then f else if 1 / 2 < d then f + 1 else if even f then f else f + 1)"

definition format_2f :: "real \<Rightarrow> string" where
  "format_2f x =
     (let q = round_half_even (\<bar>x\<bar> * 100)
      in (if x < 0 then ''-'' else '''') @ str_nat (q div 100) @ ''.'' @
         [digit_char (q mod 100 div 10), digit_char (q mod 10)])"

section \<open>The form handler of app.py\<close>

text \<open>
  A rendered response is the template name and the keyword arguments given to
  \<open>render_template\<close>.
\<close>

datatype response = Rendered string "(string \<times> pyval) list"

fun template_args :: "response \<Rightarrow> (string \<times> pyval) list" where
  "template_args (Rendered t kw) = kw"

definition opt_str :: "string option \<Rightarrow> pyval" where
  "opt_str v = (case v of None \<Rightarrow> PNone | Some s \<Rightarrow> PStr s)"

definition form_dict :: "(string \<times> string) list \<Rightarrow> (string \<times> pyval) list" where
  "form_dict data = map (\<lambda>kv. (fst kv, PStr (snd kv))) data"

text \<open>Lines 69 to 81 of app.py: the risk level and its message, from the percentage.\<close>

definition risk_of :: "real \<Rightarrow> string \<times> string" where
  "risk_of prob_percentage =
     (if prob_percentage < 30 then (''low'', ''VERY LOW RISK'')
      else if prob_percentage < 50 then (''medium'', ''MEDIUM RISK'')
      else if prob_percentage < 70 then (''high'', ''HIGH RISK'')
      else (''very-high'', ''VERY HIGH RISK''))"

text \<open>
  The body of the \<open>try\<close> block of \<open>predict\<close> in app.py: the rendered page, or the
  exception that left it.
\<close>

definition app_predict_try ::
  "env \<Rightarrow> (string \<times> string) list \<Rightarrow> server_state \<Rightarrow> (exn + response) \<times> server_state" where
  "app_predict_try e form st =
     (let (customer_id, data) = dict_pop ''customerID'' form;
          input_df = form_dict data;
          missing = missing_columns input_df
      in if missing \<noteq> [] then
           (Inl (Exn ValueError (''Missing required columns: '' @ join '', '' missing)), st)
         else
           (case select_columns EXPECTED_COLUMNS input_df of
              Inl x \<Rightarrow> (Inl x, st)
            | Inr df \<Rightarrow>
                (case invoke_predict e df st of
                   (Inl x, st1) \<Rightarrow> (Inl x, st1)
                 | (Inr prediction, st1) \<Rightarrow>
                     (case invoke_predict_proba e df st1 of
                        (Inl x, st2) \<Rightarrow> (Inl x, st2)
                      | (Inr probability, st2) \<Rightarrow>
                          (let churn_label = (if prediction = 1 then ''Yes'' else ''No'');
                               prob_percentage = float_mul e probability 100;
                               (risk_level, risk_message) = risk_of prob_percentage
                           in (Inr (Rendered ''predict.html''
                                 [(''churn'', PStr churn_label),
                                  (''probability'', PStr (format_2f prob_percentage @ ''%'')),
                                  (''prob_percentage'', PFloat prob_percentage),
                                  (''risk_level'', PStr risk_level),
                                  (''risk_message'', PStr risk_message),
                                  (''customer_id'', opt_str customer_id),
                                  (''data'', PDict (form_dict data)),
                                  (''success'', PBool True)]), st2))))))"

text \<open>
  The handler \<open>predict\<close> of app.py: the \<open>try\<close> block with its two \<open>except\<close> clauses,
  in their order. Both files name their form handler \<open>predict\<close>, so each carries the
  name of its file here.
\<close>

definition app_predict ::
  "env \<Rightarrow> (string \<times> string) list \<Rightarrow> server_state \<Rightarrow> response \<times> server_state" where
  "app_predict e form st =
     (case app_predict_try e form st of
        (Inr r, st') \<Rightarrow> (r, st')
      | (Inl x, st') \<Rightarrow>
          if exn_class x = ValueError then
            (Rendered ''predict.html''
               [(''error'', PStr (''Input Error: '' @ exn_msg x)),
                (''data'', PDict []),
                (''success'', PBool False)], st')
          else
            (Rendered ''predict.html''
               [(''error'', PStr (''Error: '' @ exn_msg x)),
                (''data'', PDict []),
                (''success'', PBool False)],
             st'\<lparr>log := log st' @ [''Prediction failed: '' @ format_exc e x]\<rparr>))"

section \<open>The handlers of app\_corrected.py\<close>

text \<open>
  The form handler \<open>predict\<close> of app\_corrected.py: the same \<open>try\<close> block without the
  risk level.
\<close>

definition corrected_predict_try ::
  "env \<Rightarrow> (string \<times> string) list \<Rightarrow> server_state \<Rightarrow> (exn + response) \<times> server_state" where
  "corrected_predict_try e form st =
     (let (customer_id, data) = dict_pop ''customerID'' form;
          input_df = form_dict data;
          missing = missing_columns input_df
      in if missing \<noteq> [] then
           (Inl (Exn ValueError (''Missing required columns: '' @ join '', '' missing)), st)
         else
           (case select_columns EXPECTED_COLUMNS input_df of
              Inl x \<Rightarrow> (Inl x, st)
            | Inr df \<Rightarrow>
                (case invoke_predict e df st of
                   (Inl x, st1) \<Rightarrow> (Inl x, st1)
                 | (Inr prediction, st1) \<Rightarrow>
                     (case invoke_predict_proba e df st1 of
                        (Inl x, st2) \<Rightarrow> (Inl x, st2)
                      | (Inr probability, st2) \<Rightarrow>
                          (let churn_label = (if prediction = 1 then ''Yes'' else ''No'')
                           in (Inr (Rendered ''predict.html''
                                 [(''churn'', PStr churn_label),
                                  (''probability'', PStr (format_2f (float_mul e probability 100) @ ''%'')),
                                  (''customer_id'', opt_str customer_id),
                                  (''data'', PDict (form_dict data)),
                                  (''success'', PBool True)]), st2))))))"

definition corrected_predict ::
  "env \<Rightarrow> (string \<times> string) list \<Rightarrow> server_state \<Rightarrow> response \<times> server_state" where
  "corrected_predict e form st =
     (case corrected_predict_try e form st of
        (Inr r, st') \<Rightarrow> (r, st')
      | (Inl x, st') \<Rightarrow>
          if exn_class x = ValueError then
            (Rendered ''predict.html''
               [(''error'', PStr (''Input Error: '' @ exn_msg x)),
                (''data'', PDict []),
                (''success'', PBool False)], st')
          else
            (Rendered ''predict.html''
               [(''error'', PStr (''Prediction Error: '' @ exn_msg x)),
                (''data'', PDict []),
                (''success'', PBool False)],
             st'\<lparr>log := log st' @ [''Prediction failed: '' @ format_exc e x]\<rparr>))"

text \<open>
  The JSON endpoint \<open>api_predict\<close>. \<open>request.get_json()\<close> gives the parsed body or raises (wrong content
  type, malformed JSON); the request is that outcome. \<open>json_data.pop('customerID', None)\<close>
  works on a dict only: a list has a \<open>pop\<close> of one argument, the other values have none.
\<close>

definition type_name :: "pyval \<Rightarrow> string" where
  "type_name v =
     (case v of PNone \<Rightarrow> ''NoneType'' | PBool b \<Rightarrow> ''bool'' | PInt i \<Rightarrow> ''int''
      | PFloat r \<Rightarrow> ''float'' | PStr s \<Rightarrow> ''str'' | PList xs \<Rightarrow> ''list'' | PDict d \<Rightarrow> ''dict'')"

definition json_pop :: "string \<Rightarrow> pyval \<Rightarrow> exn + (pyval \<times> (string \<times> pyval) list)" where
  "json_pop k v =
     (case v of
        PDict d \<Rightarrow>
          (case dict_pop k d of
             (None, d') \<Rightarrow> Inr (PNone, d')
           | (Some x, d') \<Rightarrow> Inr (x, d'))
      | PList xs \<Rightarrow> Inl (Exn TypeError ''pop expected at most 1 argument, got 2'')
      | _ \<Rightarrow>
          Inl (Exn AttributeError
                 ([CHR 39] @ type_name v @ [CHR 39] @ '' object has no attribute '' @
                  [CHR 39] @ ''pop'' @ [CHR 39])))"

text \<open>A JSON response is the object given to \<open>jsonify\<close> and the HTTP status.\<close>

type_synonym json_response = "pyval \<times> nat"

definition api_predict_try ::
  "env \<Rightarrow> exn + pyval \<Rightarrow> server_state \<Rightarrow> (exn + json_response) \<times> server_state" where
  "api_predict_try e request st =
     (case request of
        Inl x \<Rightarrow> (Inl x, st)
      | Inr json_data \<Rightarrow>
          (case json_pop ''customerID'' json_data of
             Inl x \<Rightarrow> (Inl x, st)
           | Inr (customer_id, input_df) \<Rightarrow>
               (let missing = missing_columns input_df
                in if missing \<noteq> [] then
                     (Inr (PDict [(''error'', PStr (''Missing columns: '' @ join '', '' missing)),
                                  (''success'', PBool False)], 400), st)
                   else
                     (case select_columns EXPECTED_COLUMNS input_df of
                        Inl x \<Rightarrow> (Inl x, st)
                      | Inr df \<Rightarrow>
                          (case invoke_predict e df st of
                             (Inl x, st1) \<Rightarrow> (Inl x, st1)
                           | (Inr prediction, st1) \<Rightarrow>
                               (case invoke_predict_proba e df st1 of
                                  (Inl x, st2) \<Rightarrow> (Inl x, st2)
                                | (Inr probability, st2) \<Rightarrow>
                                    (Inr (PDict
                                       [(''success'', PBool True),
                                        (''customer_id'', customer_id),
                                        (''churn_prediction'',
                                           PStr (if prediction = 1 then ''Yes'' else ''No'')),
                                        (''churn_probability'', PFloat probability),
                                        (''confidence'',
                                           PStr (format_2f (float_mul e probability 100) @ ''%''))],
                                      200), st2)))))))"

definition api_predict :: "env \<Rightarrow> exn + pyval \<Rightarrow> server_state \<Rightarrow> json_response \<times> server_state" where
  "api_predict e request st =
     (case api_predict_try e request st of
        (Inr r, st') \<Rightarrow> (r, st')
      | (Inl x, st') \<Rightarrow>
          ((PDict [(''error'', PStr (exn_msg x)), (''success'', PBool False)], 500),
           st'\<lparr>log := log st' @ [''API prediction failed: '' @ format_exc e x]\<rparr>))"

section \<open>The training script main.py\<close>

text \<open>
  An unfitted estimator is the constructor call that made it, with the keyword
  arguments the script gives (the others keep their defaults): \<open>SimpleImputer(strategy)\<close>,
  \<open>StandardScaler()\<close>, \<open>OneHotEncoder(handle_unknown, drop)\<close>,
  \<open>LogisticRegression(max_iter, class_weight)\<close>, a \<open>Pipeline\<close> of named steps and a
  \<open>ColumnTransformer\<close> of named transformers with their columns.
\<close>

datatype estimator =
    SimpleImputer string
  | StandardScaler
  | OneHotEncoder string string
  | LogisticRegression nat string
  | Pipeline "(string \<times> estimator) list"
  | ColumnTransformer "(string \<times> estimator \<times> string list) list"

definition build_pipeline :: "string list \<Rightarrow> string list \<Rightarrow> estimator" where
  "build_pipeline num_attribs cat_attribs =
     (let num_pipeline = Pipeline
            [(''imputer'', SimpleImputer ''median''),
             (''scaler'', StandardScaler)];
          cat_pipeline = Pipeline
            [(''imputer'', SimpleImputer ''most_frequent''),
             (''onehot'', OneHotEncoder ''ignore'' ''first'')];
          preprocessor = ColumnTransformer
            [(''num'', num_pipeline, num_attribs),
             (''cat'', cat_pipeline, cat_attribs)]
      in preprocessor)"

text \<open>Lines 75 to 83: the composite the script fits and saves.\<close>

definition final_model :: "string list \<Rightarrow> string list \<Rightarrow> estimator" where
  "final_model num_attribs cat_attribs =
     (let preprocessor = build_pipeline num_attribs cat_attribs
      in Pipeline
           [(''preprocessing'', preprocessor),
            (''classifier'', LogisticRegression 1000 ''balanced'')])"

text \<open>
  Line 48: \<open>churn_data["Churn"].map({"Yes": 1, "No": 0})\<close>. \<open>Series.map\<close> with a dict
  looks every cell up in the dict and gives NaN (here \<open>None\<close>) for a cell that is not a
  key; the column keeps its length. A cell is any value \<open>read_csv\<close> produced, an empty
  cell being \<open>PNone\<close>.
\<close>

definition series_map :: "(string \<times> int) list \<Rightarrow> pyval list \<Rightarrow> int option list" where
  "series_map d column = map (\<lambda>cell. case cell of PStr s \<Rightarrow> map_of d s | _ \<Rightarrow> None) column"

definition map_churn :: "pyval list \<Rightarrow> int option list" where
  "map_churn churn = series_map [(''Yes'', 1), (''No'', 0)] churn"

text \<open>
  Lines 59 to 64: \<open>split.split(customer_features, churn_labels)\<close>.
  \<open>StratifiedShuffleSplit.split\<close> validates the label vector before anything else and
  raises \<open>ValueError\<close> when it holds a missing value. With complete labels it draws the
  train and test indices, or raises for another reason (a class with one member); that
  part is the parameter \<open>shuffle\<close>.
\<close>

definition stratified_split ::
  "(int option list \<Rightarrow> exn + nat list \<times> nat list) \<Rightarrow> int option list \<Rightarrow>
     exn + nat list \<times> nat list" where
  "stratified_split shuffle y =
     (if None \<in> set y then Inl (Exn ValueError ''Input y contains NaN.'') else shuffle y)"

text \<open>
  The training branch of the script, lines 40 to 91, as far as the labels decide it: the
  \<open>Churn\<close> column is mapped and split; no statement of the branch is inside a \<open>try\<close>, so
  an exception of the split ends the run before the model is fitted and saved. What the
  script does with the indices (lines 65 to 91) is the parameter \<open>fit_and_save\<close>, which
  ends with an exception or with the model written to \<open>model.pkl\<close>.
\<close>

definition training_run ::
  "(int option list \<Rightarrow> exn + nat list \<times> nat list) \<Rightarrow> (nat list \<times> nat list \<Rightarrow> exn + unit) \<Rightarrow>
     pyval list \<Rightarrow> exn + unit" where
  "training_run shuffle fit_and_save churn =
     (let churn_labels = map_churn churn
      in case stratified_split shuffle churn_labels of
           Inl x \<Rightarrow> Inl x
         | Inr idx \<Rightarrow> fit_and_save idx)"

text \<open>Whether an estimator is, or contains at any depth, a classifier.\<close>

fun contains_classifier :: "estimator \<Rightarrow> bool" where
  "contains_classifier (LogisticRegression n w) = True"
| "contains_classifier (Pipeline steps) = list_ex (\<lambda>s. contains_classifier (snd s)) steps"
| "contains_classifier (ColumnTransformer ts) =
     list_ex (\<lambda>t. contains_classifier (fst (snd t))) ts"
| "contains_classifier _ = False"

text \<open>The step of a pipeline with a given name, and the transformer of a given name.\<close>

definition named_step :: "estimator \<Rightarrow> string \<Rightarrow> estimator option" where
  "named_step est name = (case est of Pipeline steps \<Rightarrow> map_of steps name | _ \<Rightarrow> None)"

definition named_transformer :: "estimator \<Rightarrow> string \<Rightarrow> (estimator \<times> string list) option" where
  "named_transformer est name = (case est of ColumnTransformer ts \<Rightarrow> map_of ts name | _ \<Rightarrow> None)"

section \<open>The fitted artifact\<close>

text \<open>
  Modelled from the spec: the transform and the classifier of the fitted pipeline, that
  is the library code behind \<open>final_model.fit\<close>, \<open>predict\<close> and \<open>predict_proba\<close>, which
  the script calls and the repository does not contain. The spec (section 4.1) gives
  five steps:
  missing numeric values are replaced by the median of the training split; numeric values
  are scaled with the mean and the deviation of the training split; missing categorical
  values are replaced by the most frequent value of the training split; categorical
  values are encoded against the vocabulary learned from the training split, one category
  per attribute being dropped (the first), and the vector so built goes through a linear
  classifier that gives the probability of the churn class; the label is the churn class
  when that probability reaches the threshold 0.5. What an encoder does with a value
  outside its vocabulary is decided by the \<open>handle_unknown\<close> argument of the estimator the
  script builds: all zeros for \<open>ignore\<close>, an error otherwise. The fitting itself is not
  modelled: a fitted artifact is the estimator with any learned statistics.
\<close>

record fitted =
  num_stats :: "(string \<times> real \<times> real \<times> real) list"
  cat_stats :: "(string \<times> string \<times> string list) list"
  coef :: "real list"
  intercept :: real

text \<open>
  \<open>num_stats\<close> lists the numeric attributes with their median, mean and deviation,
  \<open>cat_stats\<close> the categorical attributes with their most frequent value and their
  vocabulary. A customer record gives each numeric attribute a number or nothing, and
  each categorical attribute a string or nothing.
\<close>

record customer =
  num_values :: "string \<Rightarrow> real option"
  cat_values :: "string \<Rightarrow> string option"

text \<open>The one-hot encoders of an estimator, each with its two arguments, in order.\<close>

fun find_onehots :: "estimator \<Rightarrow> (string \<times> string) list" where
  "find_onehots (OneHotEncoder hu dr) = [(hu, dr)]"
| "find_onehots (Pipeline steps) = concat (map (\<lambda>s. find_onehots (snd s)) steps)"
| "find_onehots (ColumnTransformer ts) = concat (map (\<lambda>t. find_onehots (fst (snd t))) ts)"
| "find_onehots _ = []"

definition encode_num :: "real \<times> real \<times> real \<Rightarrow> real option \<Rightarrow> real" where
  "encode_num s v =
     (case s of (median, mean, deviation) \<Rightarrow>
        ((case v of None \<Rightarrow> median | Some x \<Rightarrow> x) - mean) / deviation)"

definition one_hot :: "string \<Rightarrow> string \<Rightarrow> string list \<Rightarrow> string \<Rightarrow> exn + real list" where
  "one_hot handle_unknown drop_arg vocabulary v =
     (let kept = (if drop_arg = ''first'' then tl vocabulary else vocabulary)
      in if v \<in> set vocabulary then Inr (map (\<lambda>c. if c = v then 1 else 0) kept)
         else if handle_unknown = ''ignore'' then Inr (map (\<lambda>c. 0) kept)
         else Inl (Exn ValueError (''Found unknown categories: '' @ v)))"

definition encode_cat ::
  "string \<times> string \<Rightarrow> string \<times> string list \<Rightarrow> string option \<Rightarrow> exn + real list" where
  "encode_cat args s v =
     (case args of (handle_unknown, drop_arg) \<Rightarrow>
      case s of (most_frequent, vocabulary) \<Rightarrow>
        one_hot handle_unknown drop_arg vocabulary
          (case v of None \<Rightarrow> most_frequent | Some x \<Rightarrow> x))"

fun encode_cats ::
  "string \<times> string \<Rightarrow> (string \<times> string \<times> string list) list \<Rightarrow> (string \<Rightarrow> string option) \<Rightarrow>
     exn + real list" where
  "encode_cats args [] vals = Inr []"
| "encode_cats args ((a, s) # rest) vals =
     (case encode_cat args s (vals a) of
        Inl x \<Rightarrow> Inl x
      | Inr block \<Rightarrow>
          (case encode_cats args rest vals of
             Inl x \<Rightarrow> Inl x
           | Inr blocks \<Rightarrow> Inr (block @ blocks)))"

definition onehot_args :: "estimator \<Rightarrow> string \<times> string" where
  "onehot_args est = (case find_onehots est of [] \<Rightarrow> (''error'', ''none'') | a # _ \<Rightarrow> a)"

definition transform :: "estimator \<Rightarrow> fitted \<Rightarrow> customer \<Rightarrow> exn + real list" where
  "transform est f r =
     (case encode_cats (onehot_args est) (cat_stats f) (cat_values r) of
        Inl x \<Rightarrow> Inl x
      | Inr blocks \<Rightarrow>
          Inr (map (\<lambda>(a, s). encode_num s (num_values r a)) (num_stats f) @ blocks))"

definition churn_probability :: "fitted \<Rightarrow> real list \<Rightarrow> real" where
  "churn_probability f xs = 1 / (1 + exp (- (intercept f + sum_list (map2 (*) (coef f) xs))))"

definition fitted_predict_proba :: "estimator \<Rightarrow> fitted \<Rightarrow> customer \<Rightarrow> exn + real" where
  "fitted_predict_proba est f r =
     (case transform est f r of Inl x \<Rightarrow> Inl x | Inr xs \<Rightarrow> Inr (churn_probability f xs))"

definition fitted_predict :: "estimator \<Rightarrow> fitted \<Rightarrow> customer \<Rightarrow> exn + int" where
  "fitted_predict est f r =
     (case transform est f r of
        Inl x \<Rightarrow> Inl x
      | Inr xs \<Rightarrow> Inr (if 1 / 2 \<le> churn_probability f xs then 1 else 0))"

text \<open>A fitted artifact, and a customer with a contract type its vocabulary lacks.\<close>

definition small_fit :: fitted where
  "small_fit =
     \<lparr>num_stats = [(''tenure'', 29, 32, 24)],
      cat_stats = [(''Contract'', ''Month-to-month'', [''Month-to-month'', ''One year'', ''Two year''])],
      coef = [-1, -1 / 2, -3 / 2],
      intercept = -1 / 4\<rparr>"

definition unseen_customer :: customer where
  "unseen_customer =
     \<lparr>num_values = (\<lambda>a. if a = ''tenure'' then Some 8 else None),
      cat_values = (\<lambda>a. if a = ''Contract'' then Some ''Weekly'' else None)\<rparr>"

section \<open>Notions used to state the properties\<close>

text \<open>The expected attribute names that are not among the given keys, in the expected order.\<close>

definition absent_names :: "string set \<Rightarrow> string list" where
  "absent_names keys = filter (\<lambda>c. c \<notin> keys) EXPECTED_COLUMNS"

text \<open>The frame a form handler builds from a submission, before the selection step.\<close>

definition form_frame :: "(string \<times> string) list \<Rightarrow> frame" where
  "form_frame form = form_dict (snd (dict_pop ''customerID'' form))"

text \<open>
  Concrete inputs: an artifact that answers every frame with the class \<open>c\<close> and the
  probability \<open>p\<close>, an empty server state, the form of
  the end-to-end scenario, and the same form without two of its attributes. The product
  of these environments is the exact one; the probabilities used with them are binary
  fractions, whose product with 100 a float64 holds exactly.
\<close>

definition stub_env :: "int \<Rightarrow> real \<Rightarrow> env" where
  "stub_env c p =
     \<lparr>model = \<lparr>art_predict = (\<lambda>df. Inr c), art_predict_proba = (\<lambda>df. Inr p)\<rparr>,
      format_exc = (\<lambda>x. ''Traceback (most recent call last): '' @ exn_msg x),
      float_mul = (\<lambda>a b. a * b)\<rparr>"

definition st0 :: server_state where
  "st0 = \<lparr>log = [], calls = []\<rparr>"

definition full_form :: "(string \<times> string) list" where
  "full_form =
     [(''customerID'', ''CUST001''), (''gender'', ''Female''), (''SeniorCitizen'', ''0''),
      (''Partner'', ''No''), (''Dependents'', ''No''), (''tenure'', ''1''),
      (''PhoneService'', ''No''), (''MultipleLines'', ''No''), (''InternetService'', ''No''),
      (''OnlineSecurity'', ''No''), (''OnlineBackup'', ''No''), (''DeviceProtection'', ''No''),
      (''TechSupport'', ''No''), (''StreamingTV'', ''No''), (''StreamingMovies'', ''No''),
      (''Contract'', ''Month-to-month''), (''PaperlessBilling'', ''No''),
      (''PaymentMethod'', ''Mailed check''), (''MonthlyCharges'', ''70.35''),
      (''TotalCharges'', ''70.35'')]"

definition partial_form :: "(string \<times> string) list" where
  "partial_form =
     [(''customerID'', ''CUST001''), (''gender'', ''Female''), (''SeniorCitizen'', ''0''),
      (''Partner'', ''No''), (''Dependents'', ''No''),
      (''PhoneService'', ''No''), (''MultipleLines'', ''No''), (''InternetService'', ''No''),
      (''OnlineSecurity'', ''No''), (''OnlineBackup'', ''No''), (''DeviceProtection'', ''No''),
      (''TechSupport'', ''No''), (''StreamingTV'', ''No''), (''StreamingMovies'', ''No''),
      (''Contract'', ''Month-to-month''), (''PaperlessBilling'', ''No''),
      (''PaymentMethod'', ''Mailed check''), (''MonthlyCharges'', ''70.35'')]"

text \<open>
  The scenario form with a tenure that is not a number, the frame selected from it, and
  an artifact that does what the fitted pipeline does with such a cell: its numeric
  imputer raises \<open>ValueError\<close>.
\<close>

definition bad_value_form :: "(string \<times> string) list" where
  "bad_value_form =
     [(''customerID'', ''CUST001''), (''gender'', ''Female''), (''SeniorCitizen'', ''0''),
      (''Partner'', ''No''), (''Dependents'', ''No''), (''tenure'', ''abc''),
      (''PhoneService'', ''No''), (''MultipleLines'', ''No''), (''InternetService'', ''No''),
      (''OnlineSecurity'', ''No''), (''OnlineBackup'', ''No''), (''DeviceProtection'', ''No''),
      (''TechSupport'', ''No''), (''StreamingTV'', ''No''), (''StreamingMovies'', ''No''),
      (''Contract'', ''Month-to-month''), (''PaperlessBilling'', ''No''),
      (''PaymentMethod'', ''Mailed check''), (''MonthlyCharges'', ''70.35''),
      (''TotalCharges'', ''70.35'')]"

definition bad_value_frame :: frame where
  "bad_value_frame =
     [(''gender'', PStr ''Female''), (''SeniorCitizen'', PStr ''0''),
      (''Partner'', PStr ''No''), (''Dependents'', PStr ''No''), (''tenure'', PStr ''abc''),
      (''PhoneService'', PStr ''No''), (''MultipleLines'', PStr ''No''),
      (''InternetService'', PStr ''No''), (''OnlineSecurity'', PStr ''No''),
      (''OnlineBackup'', PStr ''No''), (''DeviceProtection'', PStr ''No''),
      (''TechSupport'', PStr ''No''), (''StreamingTV'', PStr ''No''),
      (''StreamingMovies'', PStr ''No''), (''Contract'', PStr ''Month-to-month''),
      (''PaperlessBilling'', PStr ''No''), (''PaymentMethod'', PStr ''Mailed check''),
      (''MonthlyCharges'', PStr ''70.35''), (''TotalCharges'', PStr ''70.35'')]"

definition strict_env :: env where
  "strict_env =
     \<lparr>model =
        \<lparr>art_predict = (\<lambda>df. if map_of df ''tenure'' = Some (PStr ''abc'')
                              then Inl (Exn ValueError ''could not convert string to float: abc'')
                              else Inr 0),
         art_predict_proba = (\<lambda>df. if map_of df ''tenure'' = Some (PStr ''abc'')
                              then Inl (Exn ValueError ''could not convert string to float: abc'')
                              else Inr (1 / 4))\<rparr>,
      format_exc = (\<lambda>x. ''Traceback (most recent call last): '' @ exn_msg x),
      float_mul = (\<lambda>a b. a * b)\<rparr>"

text \<open>The frame the handlers select from \<open>full_form\<close>.\<close>

definition full_frame :: frame where
  "full_frame =
     [(''gender'', PStr ''Female''), (''SeniorCitizen'', PStr ''0''),
      (''Partner'', PStr ''No''), (''Dependents'', PStr ''No''), (''tenure'', PStr ''1''),
      (''PhoneService'', PStr ''No''), (''MultipleLines'', PStr ''No''),
      (''InternetService'', PStr ''No''), (''OnlineSecurity'', PStr ''No''),
      (''OnlineBackup'', PStr ''No''), (''DeviceProtection'', PStr ''No''),
      (''TechSupport'', PStr ''No''), (''StreamingTV'', PStr ''No''),
      (''StreamingMovies'', PStr ''No''), (''Contract'', PStr ''Month-to-month''),
      (''PaperlessBilling'', PStr ''No''), (''PaymentMethod'', PStr ''Mailed check''),
      (''MonthlyCharges'', PStr ''70.35''), (''TotalCharges'', PStr ''70.35'')]"

text \<open>
  The artifact calls a handler added to the trace, and the fields of a JSON body.
\<close>

definition new_calls :: "server_state \<Rightarrow> server_state \<Rightarrow> call list" where
  "new_calls st st' = drop (length (calls st)) (calls st')"

definition json_fields :: "pyval \<Rightarrow> (string \<times> pyval) list" where
  "json_fields v = (case v of PDict d \<Rightarrow> d | _ \<Rightarrow> [])"

text \<open>The scenario form in another order, without identifier and with an extra attribute.\<close>

definition shuffled_form :: "(string \<times> string) list" where
  "shuffled_form =
     [(''TotalCharges'', ''70.35''), (''notes'', ''call back''), (''MonthlyCharges'', ''70.35''),
      (''PaymentMethod'', ''Mailed check''), (''PaperlessBilling'', ''No''),
      (''Contract'', ''Month-to-month''), (''StreamingMovies'', ''No''),
      (''StreamingTV'', ''No''), (''TechSupport'', ''No''), (''DeviceProtection'', ''No''),
      (''OnlineBackup'', ''No''), (''OnlineSecurity'', ''No''), (''InternetService'', ''No''),
      (''MultipleLines'', ''No''), (''PhoneService'', ''No''), (''tenure'', ''1''),
      (''Dependents'', ''No''), (''Partner'', ''No''), (''SeniorCitizen'', ''0''),
      (''gender'', ''Female'')]"

text \<open>
  A percentage with exactly two decimals: an optional minus sign, one or more digits, a
  point, two digits and the percent sign.
\<close>

definition is_digit :: "char \<Rightarrow> bool" where
  "is_digit c = (c \<in> set ''0123456789'')"

definition two_decimal_percent :: "string \<Rightarrow> bool" where
  "two_decimal_percent s =
     (case rev s of
        pc # d2 # d1 # dot # ip \<Rightarrow>
          pc = CHR ''%'' \<and> is_digit d2 \<and> is_digit d1 \<and> dot = CHR ''.'' \<and>
          (let ds = (if ip \<noteq> [] \<and> last ip = CHR ''-'' then butlast ip else ip)
           in ds \<noteq> [] \<and> list_all is_digit ds)
      | _ \<Rightarrow> False)"

section \<open>Properties\<close>

subsection \<open>Structural validation\<close>

lemma distinct_EXPECTED_COLUMNS: "distinct EXPECTED_COLUMNS"
  by (simp add: EXPECTED_COLUMNS_def)

lemma customerID_not_expected: "''customerID'' \<notin> set EXPECTED_COLUMNS"
  by (simp add: EXPECTED_COLUMNS_def)

lemma columns_form_dict: "set (columns (form_dict d)) = fst ` set d"
  by (force simp: columns_def form_dict_def)

lemma popped_keys: "fst ` set (snd (dict_pop k d)) = fst ` set d - {k}"
  by (force simp: dict_pop_def)

lemma missing_columns_eq:
  assumes "keys - {''customerID''} \<subseteq> set (columns df) " "set (columns df) \<subseteq> keys"
  shows "missing_columns df = absent_names keys"
  unfolding missing_columns_def absent_names_def
proof (rule filter_cong[OF refl])
  fix c assume "c \<in> set EXPECTED_COLUMNS"
  then have "c \<noteq> ''customerID''" using customerID_not_expected by auto
  then show "(c \<notin> set (columns df)) = (c \<notin> keys)" using assms by auto
qed

lemma missing_columns_form:
  "missing_columns (form_frame form) = absent_names (fst ` set form)"
  by (rule missing_columns_eq) (auto simp: form_frame_def columns_form_dict popped_keys)

lemma missing_columns_json:
  "missing_columns (snd (dict_pop ''customerID'' d)) = absent_names (fst ` set d)"
  by (rule missing_columns_eq) (auto simp: columns_def popped_keys)

lemma absent_names_empty: "absent_names keys = [] \<longleftrightarrow> set EXPECTED_COLUMNS \<subseteq> keys"
  by (auto simp: absent_names_def filter_empty_conv)

lemma set_absent_names: "set (absent_names keys) = set EXPECTED_COLUMNS - keys"
  by (auto simp: absent_names_def)

lemma app_predict_try_missing:
  "absent_names (fst ` set form) \<noteq> [] \<Longrightarrow>
   app_predict_try e form st =
     (Inl (Exn ValueError (''Missing required columns: '' @
             join '', '' (absent_names (fst ` set form)))), st)"
  using missing_columns_form[of form]
  by (simp add: app_predict_try_def form_frame_def Let_def split_beta)

lemma corrected_predict_try_missing:
  "absent_names (fst ` set form) \<noteq> [] \<Longrightarrow>
   corrected_predict_try e form st =
     (Inl (Exn ValueError (''Missing required columns: '' @
             join '', '' (absent_names (fst ` set form)))), st)"
  using missing_columns_form[of form]
  by (simp add: corrected_predict_try_def form_frame_def Let_def split_beta)

lemma json_pop_dict:
  "json_pop k (PDict d) =
     Inr (case map_of d k of None \<Rightarrow> PNone | Some x \<Rightarrow> x, snd (dict_pop k d))"
  by (simp add: json_pop_def dict_pop_def split: option.splits)

lemma api_predict_try_missing:
  assumes "absent_names (fst ` set d) \<noteq> []"
  shows "api_predict_try e (Inr (PDict d)) st =
     (Inr (PDict [(''error'', PStr (''Missing columns: '' @
                  join '', '' (absent_names (fst ` set d)))),
                 (''success'', PBool False)], 400), st)"
proof -
  have "missing_columns (snd (dict_pop ''customerID'' d)) \<noteq> []"
    using assms by (simp add: missing_columns_json)
  then show ?thesis
    by (simp add: api_predict_try_def json_pop_dict Let_def missing_columns_json)
qed

text \<open>
  C1. A submission that lacks at least one of the 19 expected attribute names is rejected
  by each handler without touching the server state, so neither artifact operation is
  invoked: the form handlers render the page with \<open>success=False\<close> and the message
  \<open>Input Error: Missing required columns: \<close> followed by the missing names, the JSON
  endpoint answers with status 400, \<open>success=False\<close> and \<open>Missing columns: \<close> followed
  by the missing names. The names listed are exactly the expected names that are not keys
  of the submission, each once, joined by a comma and a space.
\<close>

theorem missing_columns_rejected:
  "(\<not> set EXPECTED_COLUMNS \<subseteq> fst ` set form \<longrightarrow>
      app_predict e form st =
        (Rendered ''predict.html''
           [(''error'', PStr (''Input Error: Missing required columns: '' @
                              join '', '' (absent_names (fst ` set form)))),
            (''data'', PDict []), (''success'', PBool False)], st) \<and>
      corrected_predict e form st =
        (Rendered ''predict.html''
           [(''error'', PStr (''Input Error: Missing required columns: '' @
                              join '', '' (absent_names (fst ` set form)))),
            (''data'', PDict []), (''success'', PBool False)], st)) \<and>
   (\<not> set EXPECTED_COLUMNS \<subseteq> fst ` set d \<longrightarrow>
      api_predict e (Inr (PDict d)) st =
        ((PDict [(''error'', PStr (''Missing columns: '' @
                                   join '', '' (absent_names (fst ` set d)))),
                 (''success'', PBool False)], 400), st)) \<and>
   set (absent_names keys) = set EXPECTED_COLUMNS - keys \<and>
   distinct (absent_names keys) \<and> length EXPECTED_COLUMNS = 19"
proof (intro conjI impI)
  assume m: "\<not> set EXPECTED_COLUMNS \<subseteq> fst ` set form"
  then have ne: "absent_names (fst ` set form) \<noteq> []" by (simp add: absent_names_empty)
  show "app_predict e form st =
        (Rendered ''predict.html''
           [(''error'', PStr (''Input Error: Missing required columns: '' @
                              join '', '' (absent_names (fst ` set form)))),
            (''data'', PDict []), (''success'', PBool False)], st)"
    by (simp add: app_predict_def app_predict_try_missing[OF ne])
  show "corrected_predict e form st =
        (Rendered ''predict.html''
           [(''error'', PStr (''Input Error: Missing required columns: '' @
                              join '', '' (absent_names (fst ` set form)))),
            (''data'', PDict []), (''success'', PBool False)], st)"
    by (simp add: corrected_predict_def corrected_predict_try_missing[OF ne])
next
  assume m: "\<not> set EXPECTED_COLUMNS \<subseteq> fst ` set d"
  then have ne: "absent_names (fst ` set d) \<noteq> []" by (simp add: absent_names_empty)
  show "api_predict e (Inr (PDict d)) st =
        ((PDict [(''error'', PStr (''Missing columns: '' @
                                   join '', '' (absent_names (fst ` set d)))),
                 (''success'', PBool False)], 400), st)"
    by (simp add: api_predict_def api_predict_try_missing[OF ne])
next
  show "set (absent_names keys) = set EXPECTED_COLUMNS - keys" by (rule set_absent_names)
  show "distinct (absent_names keys)"
    unfolding absent_names_def by (rule distinct_filter) (rule distinct_EXPECTED_COLUMNS)
  show "length EXPECTED_COLUMNS = 19" by (simp add: EXPECTED_COLUMNS_def)
qed

theorem missing_columns_rejected_witness:
  "\<not> set EXPECTED_COLUMNS \<subseteq> fst ` set partial_form \<and>
   app_predict (stub_env 1 (1 / 2)) partial_form st0 =
     (Rendered ''predict.html''
        [(''error'', PStr ''Input Error: Missing required columns: tenure, TotalCharges''),
         (''data'', PDict []), (''success'', PBool False)], st0) \<and>
   api_predict (stub_env 1 (1 / 2)) (Inr (PDict (form_dict partial_form))) st0 =
     ((PDict [(''error'', PStr ''Missing columns: tenure, TotalCharges''),
              (''success'', PBool False)], 400), st0)"
proof -
  have h: "\<not> set EXPECTED_COLUMNS \<subseteq> fst ` set partial_form"
    by (simp add: EXPECTED_COLUMNS_def partial_form_def)
  have a: "absent_names (fst ` set partial_form) = [''tenure'', ''TotalCharges'']"
    by (simp add: absent_names_def EXPECTED_COLUMNS_def partial_form_def)
  have k: "fst ` set (form_dict partial_form) = fst ` set partial_form"
    by (simp add: form_dict_def image_image)
  from missing_columns_rejected
         [of partial_form "stub_env 1 (1 / 2)" st0 "form_dict partial_form" "{}"] h a k
  show ?thesis by simp
qed

subsection \<open>The outcomes of the three handlers\<close>

lemma select_columns_present:
  "set cols \<subseteq> fst ` set df \<Longrightarrow> \<exists>r. select_columns cols df = Inr r"
proof (induction cols)
  case Nil
  then show ?case by simp
next
  case (Cons c cs)
  then obtain r where r: "select_columns cs df = Inr r" by auto
  from Cons.prems have "c \<in> fst ` set df" by simp
  then obtain v where "map_of df c = Some v"
    by (meson map_of_eq_None_iff not_Some_eq)
  with r show ?case by simp
qed

lemma select_columns_Inr:
  "select_columns cols df = Inr r \<Longrightarrow>
     map fst r = cols \<and> (\<forall>c\<in>set cols. map_of df c \<noteq> None \<and> map_of r c = map_of df c)"
proof (induction cols arbitrary: r)
  case Nil
  then show ?case by simp
next
  case (Cons c cs)
  then show ?case
    by (auto split: option.splits sum.splits)
qed

lemma select_columns_cong:
  "(\<And>c. c \<in> set cols \<Longrightarrow> map_of d1 c = map_of d2 c) \<Longrightarrow>
     select_columns cols d1 = select_columns cols d2"
  by (induction cols) (auto split: option.splits sum.splits)

lemma app_predict_try_eq:
  "app_predict_try e form st =
     (if absent_names (fst ` set form) \<noteq> [] then
        (Inl (Exn ValueError (''Missing required columns: '' @
                join '', '' (absent_names (fst ` set form)))), st)
      else
        (case select_columns EXPECTED_COLUMNS (form_frame form) of
           Inl x \<Rightarrow> (Inl x, st)
         | Inr df \<Rightarrow>
             (case art_predict (model e) df of
                Inl x \<Rightarrow> (Inl x, st\<lparr>calls := calls st @ [CallPredict df]\<rparr>)
              | Inr c \<Rightarrow>
                  (case art_predict_proba (model e) df of
                     Inl x \<Rightarrow> (Inl x, st\<lparr>calls := calls st @ [CallPredict df, CallPredictProba df]\<rparr>)
                   | Inr p \<Rightarrow>
                       (Inr (Rendered ''predict.html''
                          [(''churn'', PStr (if c = 1 then ''Yes'' else ''No'')),
                           (''probability'', PStr (format_2f (float_mul e p 100) @ ''%'')),
                           (''prob_percentage'', PFloat (float_mul e p 100)),
                           (''risk_level'', PStr (fst (risk_of (float_mul e p 100)))),
                           (''risk_message'', PStr (snd (risk_of (float_mul e p 100)))),
                           (''customer_id'', opt_str (map_of form ''customerID'')),
                           (''data'', PDict (form_frame form)),
                           (''success'', PBool True)]),
                        st\<lparr>calls := calls st @ [CallPredict df, CallPredictProba df]\<rparr>)))))"
  using missing_columns_form[of form]
  by (simp add: app_predict_try_def form_frame_def Let_def split_beta dict_pop_def
        invoke_predict_def invoke_predict_proba_def split: sum.splits)

lemma corrected_predict_try_eq:
  "corrected_predict_try e form st =
     (if absent_names (fst ` set form) \<noteq> [] then
        (Inl (Exn ValueError (''Missing required columns: '' @
                join '', '' (absent_names (fst ` set form)))), st)
      else
        (case select_columns EXPECTED_COLUMNS (form_frame form) of
           Inl x \<Rightarrow> (Inl x, st)
         | Inr df \<Rightarrow>
             (case art_predict (model e) df of
                Inl x \<Rightarrow> (Inl x, st\<lparr>calls := calls st @ [CallPredict df]\<rparr>)
              | Inr c \<Rightarrow>
                  (case art_predict_proba (model e) df of
                     Inl x \<Rightarrow> (Inl x, st\<lparr>calls := calls st @ [CallPredict df, CallPredictProba df]\<rparr>)
                   | Inr p \<Rightarrow>
                       (Inr (Rendered ''predict.html''
                          [(''churn'', PStr (if c = 1 then ''Yes'' else ''No'')),
                           (''probability'', PStr (format_2f (float_mul e p 100) @ ''%'')),
                           (''customer_id'', opt_str (map_of form ''customerID'')),
                           (''data'', PDict (form_frame form)),
                           (''success'', PBool True)]),
                        st\<lparr>calls := calls st @ [CallPredict df, CallPredictProba df]\<rparr>)))))"
  using missing_columns_form[of form]
  by (simp add: corrected_predict_try_def form_frame_def Let_def split_beta dict_pop_def
        invoke_predict_def invoke_predict_proba_def split: sum.splits)

lemma api_predict_try_eq:
  "api_predict_try e (Inr (PDict d)) st =
     (if absent_names (fst ` set d) \<noteq> [] then
        (Inr (PDict [(''error'', PStr (''Missing columns: '' @
                        join '', '' (absent_names (fst ` set d)))),
                     (''success'', PBool False)], 400), st)
      else
        (case select_columns EXPECTED_COLUMNS (snd (dict_pop ''customerID'' d)) of
           Inl x \<Rightarrow> (Inl x, st)
         | Inr df \<Rightarrow>
             (case art_predict (model e) df of
                Inl x \<Rightarrow> (Inl x, st\<lparr>calls := calls st @ [CallPredict df]\<rparr>)
              | Inr c \<Rightarrow>
                  (case art_predict_proba (model e) df of
                     Inl x \<Rightarrow> (Inl x, st\<lparr>calls := calls st @ [CallPredict df, CallPredictProba df]\<rparr>)
                   | Inr p \<Rightarrow>
                       (Inr (PDict
                          [(''success'', PBool True),
                           (''customer_id'',
                              (case map_of d ''customerID'' of None \<Rightarrow> PNone | Some v \<Rightarrow> v)),
                           (''churn_prediction'', PStr (if c = 1 then ''Yes'' else ''No'')),
                           (''churn_probability'', PFloat p),
                           (''confidence'', PStr (format_2f (float_mul e p 100) @ ''%''))], 200),
                        st\<lparr>calls := calls st @ [CallPredict df, CallPredictProba df]\<rparr>)))))"
  using missing_columns_json[of d]
  by (simp add: api_predict_try_def json_pop_dict Let_def
        invoke_predict_def invoke_predict_proba_def split: sum.splits)

text \<open>When nothing is missing the selection step succeeds.\<close>

lemma select_form_frame:
  assumes "absent_names (fst ` set form) = []"
  shows "\<exists>df. select_columns EXPECTED_COLUMNS (form_frame form) = Inr df"
proof (rule select_columns_present)
  have "set EXPECTED_COLUMNS \<subseteq> fst ` set form"
    using assms by (simp add: absent_names_empty)
  moreover have "fst ` set (form_frame form) = fst ` set form - {''customerID''}"
    using columns_form_dict[of "snd (dict_pop ''customerID'' form)"]
    by (simp add: form_frame_def popped_keys columns_def)
  ultimately show "set EXPECTED_COLUMNS \<subseteq> fst ` set (form_frame form)"
    using customerID_not_expected by auto
qed

lemma select_json_frame:
  assumes "absent_names (fst ` set d) = []"
  shows "\<exists>df. select_columns EXPECTED_COLUMNS (snd (dict_pop ''customerID'' d)) = Inr df"
proof (rule select_columns_present)
  have "set EXPECTED_COLUMNS \<subseteq> fst ` set d"
    using assms by (simp add: absent_names_empty)
  then show "set EXPECTED_COLUMNS \<subseteq> fst ` set (snd (dict_pop ''customerID'' d))"
    using customerID_not_expected by (auto simp: popped_keys)
qed

lemma app_predict_success:
  assumes "app_predict e form st = (r, st')"
    and "map_of (template_args r) ''success'' = Some (PBool True)"
  shows "\<exists>df c p. select_columns EXPECTED_COLUMNS (form_frame form) = Inr df \<and>
           art_predict (model e) df = Inr c \<and> art_predict_proba (model e) df = Inr p \<and>
           r = Rendered ''predict.html''
                 [(''churn'', PStr (if c = 1 then ''Yes'' else ''No'')),
                  (''probability'', PStr (format_2f (float_mul e p 100) @ ''%'')),
                  (''prob_percentage'', PFloat (float_mul e p 100)),
                  (''risk_level'', PStr (fst (risk_of (float_mul e p 100)))),
                  (''risk_message'', PStr (snd (risk_of (float_mul e p 100)))),
                  (''customer_id'', opt_str (map_of form ''customerID'')),
                  (''data'', PDict (form_frame form)),
                  (''success'', PBool True)] \<and>
           st' = st\<lparr>calls := calls st @ [CallPredict df, CallPredictProba df]\<rparr>"
  using assms
  by (auto simp: app_predict_def app_predict_try_eq split: if_splits sum.splits)

lemma corrected_predict_success:
  assumes "corrected_predict e form st = (r, st')"
    and "map_of (template_args r) ''success'' = Some (PBool True)"
  shows "\<exists>df c p. select_columns EXPECTED_COLUMNS (form_frame form) = Inr df \<and>
           art_predict (model e) df = Inr c \<and> art_predict_proba (model e) df = Inr p \<and>
           r = Rendered ''predict.html''
                 [(''churn'', PStr (if c = 1 then ''Yes'' else ''No'')),
                  (''probability'', PStr (format_2f (float_mul e p 100) @ ''%'')),
                  (''customer_id'', opt_str (map_of form ''customerID'')),
                  (''data'', PDict (form_frame form)),
                  (''success'', PBool True)] \<and>
           st' = st\<lparr>calls := calls st @ [CallPredict df, CallPredictProba df]\<rparr>"
  using assms
  by (auto simp: corrected_predict_def corrected_predict_try_eq split: if_splits sum.splits)

lemma api_predict_try_not_dict:
  "\<forall>d. v \<noteq> PDict d \<Longrightarrow> \<exists>x. api_predict_try e (Inr v) st = (Inl x, st) \<and>
      exn_class x \<in> {AttributeError, TypeError}"
  by (cases v) (simp_all add: api_predict_try_def json_pop_def)

lemma api_predict_success:
  assumes "api_predict e request st = ((body, status), st')" and "status = 200"
  shows "\<exists>d df c p. request = Inr (PDict d) \<and> set EXPECTED_COLUMNS \<subseteq> fst ` set d \<and>
           select_columns EXPECTED_COLUMNS (snd (dict_pop ''customerID'' d)) = Inr df \<and>
           art_predict (model e) df = Inr c \<and> art_predict_proba (model e) df = Inr p \<and>
           body = PDict
                   [(''success'', PBool True),
                    (''customer_id'',
                       (case map_of d ''customerID'' of None \<Rightarrow> PNone | Some v \<Rightarrow> v)),
                    (''churn_prediction'', PStr (if c = 1 then ''Yes'' else ''No'')),
                    (''churn_probability'', PFloat p),
                    (''confidence'', PStr (format_2f (float_mul e p 100) @ ''%''))] \<and>
           st' = st\<lparr>calls := calls st @ [CallPredict df, CallPredictProba df]\<rparr>"
proof (cases request)
  case (Inl x)
  with assms show ?thesis by (simp add: api_predict_def api_predict_try_def)
next
  case (Inr v)
  show ?thesis
  proof (cases "\<exists>d. v = PDict d")
    case False
    then obtain x where "api_predict_try e (Inr v) st = (Inl x, st)"
      using api_predict_try_not_dict[of v e st] by auto
    with assms Inr show ?thesis by (simp add: api_predict_def)
  next
    case True
    then obtain d where d: "v = PDict d" by auto
    with assms Inr show ?thesis
      by (auto simp: api_predict_def api_predict_try_eq absent_names_empty
               split: if_splits sum.splits)
  qed
qed

lemma api_predict_failure:
  assumes "api_predict e request st = ((body, status), st')" and "status \<noteq> 200"
  shows "status \<in> {400, 500} \<and>
         (\<exists>msg. body = PDict [(''error'', PStr msg), (''success'', PBool False)])"
proof (cases request)
  case (Inl x)
  with assms show ?thesis by (auto simp: api_predict_def api_predict_try_def)
next
  case (Inr v)
  show ?thesis
  proof (cases "\<exists>d. v = PDict d")
    case False
    then obtain x where "api_predict_try e (Inr v) st = (Inl x, st)"
      using api_predict_try_not_dict[of v e st] by auto
    with assms Inr show ?thesis by (auto simp: api_predict_def)
  next
    case True
    then obtain d where d: "v = PDict d" by auto
    with assms Inr show ?thesis
      by (auto simp: api_predict_def api_predict_try_eq split: if_splits sum.splits)
  qed
qed

subsection \<open>The handlers on the scenario form\<close>

lemma full_form_keys: "set EXPECTED_COLUMNS \<subseteq> fst ` set full_form"
  by (simp add: EXPECTED_COLUMNS_def full_form_def)

lemma full_form_frame: "form_frame full_form = full_frame"
  by (simp add: form_frame_def form_dict_def dict_pop_def full_form_def full_frame_def)

lemma full_frame_selected: "select_columns EXPECTED_COLUMNS full_frame = Inr full_frame"
  by (simp add: EXPECTED_COLUMNS_def full_frame_def)

lemma full_form_selected: "select_columns EXPECTED_COLUMNS (form_frame full_form) = Inr full_frame"
  by (simp add: full_form_frame full_frame_selected)

lemma dict_pop_form_dict: "snd (dict_pop k (form_dict f)) = form_dict (snd (dict_pop k f))"
  by (simp add: dict_pop_def form_dict_def filter_map o_def)

lemma keys_form_dict: "fst ` set (form_dict f) = fst ` set f"
  by (simp add: form_dict_def image_image)

lemma map_of_form_dict: "map_of (form_dict f) k = map_option PStr (map_of f k)"
  by (induction f) (auto simp: form_dict_def)

lemma full_form_app_predict:
  "app_predict (stub_env c p) full_form st =
     (Rendered ''predict.html''
        [(''churn'', PStr (if c = 1 then ''Yes'' else ''No'')),
         (''probability'', PStr (format_2f (p * 100) @ ''%'')),
         (''prob_percentage'', PFloat (p * 100)),
         (''risk_level'', PStr (fst (risk_of (p * 100)))),
         (''risk_message'', PStr (snd (risk_of (p * 100)))),
         (''customer_id'', PStr ''CUST001''),
         (''data'', PDict full_frame),
         (''success'', PBool True)],
      st\<lparr>calls := calls st @ [CallPredict full_frame, CallPredictProba full_frame]\<rparr>)"
proof -
  have "map_of full_form ''customerID'' = Some ''CUST001''"
    by (simp add: full_form_def)
  then show ?thesis
    using full_form_keys
    by (simp add: app_predict_def app_predict_try_eq absent_names_empty full_frame_selected
          full_form_frame stub_env_def opt_str_def)
qed

lemma full_form_corrected_predict:
  "corrected_predict (stub_env c p) full_form st =
     (Rendered ''predict.html''
        [(''churn'', PStr (if c = 1 then ''Yes'' else ''No'')),
         (''probability'', PStr (format_2f (p * 100) @ ''%'')),
         (''customer_id'', PStr ''CUST001''),
         (''data'', PDict full_frame),
         (''success'', PBool True)],
      st\<lparr>calls := calls st @ [CallPredict full_frame, CallPredictProba full_frame]\<rparr>)"
proof -
  have "map_of full_form ''customerID'' = Some ''CUST001''"
    by (simp add: full_form_def)
  then show ?thesis
    using full_form_keys
    by (simp add: corrected_predict_def corrected_predict_try_eq absent_names_empty
          full_frame_selected full_form_frame stub_env_def opt_str_def)
qed

lemma full_form_api_predict:
  "api_predict (stub_env c p) (Inr (PDict (form_dict full_form))) st =
     ((PDict [(''success'', PBool True),
              (''customer_id'', PStr ''CUST001''),
              (''churn_prediction'', PStr (if c = 1 then ''Yes'' else ''No'')),
              (''churn_probability'', PFloat p),
              (''confidence'', PStr (format_2f (p * 100) @ ''%''))], 200),
      st\<lparr>calls := calls st @ [CallPredict full_frame, CallPredictProba full_frame]\<rparr>)"
proof -
  have "map_of full_form ''customerID'' = Some ''CUST001''"
    by (simp add: full_form_def)
  moreover have "select_columns EXPECTED_COLUMNS (form_dict (snd (dict_pop ''customerID'' full_form)))
                   = Inr full_frame"
    using full_form_selected by (simp add: form_frame_def)
  ultimately show ?thesis
    using full_form_keys
    by (simp add: api_predict_def api_predict_try_eq absent_names_empty keys_form_dict
          dict_pop_form_dict map_of_form_dict stub_env_def)
qed

lemma full_form_success:
  "map_of (template_args (fst (app_predict (stub_env c p) full_form st0))) ''success'' =
     Some (PBool True)"
  by (simp add: full_form_app_predict)

subsection \<open>Risk tier\<close>

text \<open>
  C2. When the form handler of app.py renders a prediction, it passes to the page the
  percentage it computed, which is the float product of 100 and the probability \<open>p\<close>
  the artifact returned for the selected frame, and the risk level that the four-way rule
  gives for this computed percentage: \<open>low\<close> exactly when the percentage is below 30,
  \<open>medium\<close> exactly from 30 to below 50, \<open>high\<close> exactly from 50 to below 70, and
  \<open>very-high\<close> exactly from 70 on. In particular a percentage of 29.99 is \<open>low\<close>, 30
  and 49.99 are \<open>medium\<close>, 50 and 69.99 are \<open>high\<close>, and 70 is \<open>very-high\<close>.
\<close>

theorem risk_tier_rule:
  "(app_predict e form st = (r, st') \<and>
    map_of (template_args r) ''success'' = Some (PBool True) \<longrightarrow>
      (\<exists>df p. select_columns EXPECTED_COLUMNS (form_frame form) = Inr df \<and>
               art_predict_proba (model e) df = Inr p \<and>
               map_of (template_args r) ''prob_percentage'' =
                 Some (PFloat (float_mul e p 100)) \<and>
               map_of (template_args r) ''risk_level'' =
                 Some (PStr (fst (risk_of (float_mul e p 100)))))) \<and>
   (fst (risk_of pp) = ''low'' \<longleftrightarrow> pp < 30) \<and>
   (fst (risk_of pp) = ''medium'' \<longleftrightarrow> 30 \<le> pp \<and> pp < 50) \<and>
   (fst (risk_of pp) = ''high'' \<longleftrightarrow> 50 \<le> pp \<and> pp < 70) \<and>
   (fst (risk_of pp) = ''very-high'' \<longleftrightarrow> 70 \<le> pp) \<and>
   fst (risk_of (2999 / 100)) = ''low'' \<and> fst (risk_of 30) = ''medium'' \<and>
   fst (risk_of (4999 / 100)) = ''medium'' \<and> fst (risk_of 50) = ''high'' \<and>
   fst (risk_of (6999 / 100)) = ''high'' \<and> fst (risk_of 70) = ''very-high''"
proof (intro conjI impI)
  assume a: "app_predict e form st = (r, st') \<and>
             map_of (template_args r) ''success'' = Some (PBool True)"
  then have a1: "app_predict e form st = (r, st')"
    and a2: "map_of (template_args r) ''success'' = Some (PBool True)"
    by simp_all
  from app_predict_success[OF a1 a2]
  show "\<exists>df p. select_columns EXPECTED_COLUMNS (form_frame form) = Inr df \<and>
               art_predict_proba (model e) df = Inr p \<and>
               map_of (template_args r) ''prob_percentage'' =
                 Some (PFloat (float_mul e p 100)) \<and>
               map_of (template_args r) ''risk_level'' =
                 Some (PStr (fst (risk_of (float_mul e p 100))))"
    by (elim exE conjE) auto
qed (simp_all add: risk_of_def)

theorem risk_tier_rule_witness:
  "map_of (template_args (fst (app_predict (stub_env 1 (19 / 64)) full_form st0)))
      ''success'' = Some (PBool True) \<and>
   map_of (template_args (fst (app_predict (stub_env 1 (19 / 64)) full_form st0)))
      ''prob_percentage'' = Some (PFloat (475 / 16)) \<and>
   map_of (template_args (fst (app_predict (stub_env 1 (19 / 64)) full_form st0)))
      ''risk_level'' = Some (PStr ''low'')"
proof -
  let ?e = "stub_env 1 (19 / 64)"
  have h: "map_of (template_args (fst (app_predict ?e full_form st0))) ''success'' =
             Some (PBool True)"
    by (rule full_form_success)
  have "app_predict ?e full_form st0 =
          (fst (app_predict ?e full_form st0), snd (app_predict ?e full_form st0))"
    by simp
  with h risk_tier_rule[of ?e full_form st0 "fst (app_predict ?e full_form st0)"
                            "snd (app_predict ?e full_form st0)" "475 / 16", THEN conjunct1]
  have "\<exists>df p. select_columns EXPECTED_COLUMNS (form_frame full_form) = Inr df \<and>
               art_predict_proba (model ?e) df = Inr p \<and>
               map_of (template_args (fst (app_predict ?e full_form st0))) ''prob_percentage'' =
                 Some (PFloat (float_mul ?e p 100)) \<and>
               map_of (template_args (fst (app_predict ?e full_form st0))) ''risk_level'' =
                 Some (PStr (fst (risk_of (float_mul ?e p 100))))"
    by blast
  then obtain df p where p: "art_predict_proba (model ?e) df = Inr p"
    and q: "map_of (template_args (fst (app_predict ?e full_form st0))) ''prob_percentage'' =
            Some (PFloat (float_mul ?e p 100))"
    and r: "map_of (template_args (fst (app_predict ?e full_form st0))) ''risk_level'' =
            Some (PStr (fst (risk_of (float_mul ?e p 100))))"
    by (elim exE conjE)
  from p have "p = 19 / 64" by (simp add: stub_env_def)
  with q r h show ?thesis by (simp add: risk_of_def stub_env_def)
qed

subsection \<open>Label and probability\<close>

text \<open>
  C3, as the handlers have it. On every successful response the label is \<open>Yes\<close> exactly
  when the class the artifact predicted for the selected frame equals 1, and \<open>No\<close>
  otherwise; the probability reported is the one the artifact returned for the same frame.
  No handler compares the probability with a threshold.
\<close>

theorem label_follows_predicted_class:
  "(app_predict e form st = (r, st') \<and>
    map_of (template_args r) ''success'' = Some (PBool True) \<longrightarrow>
      (\<exists>df c p. select_columns EXPECTED_COLUMNS (form_frame form) = Inr df \<and>
         art_predict (model e) df = Inr c \<and> art_predict_proba (model e) df = Inr p \<and>
         map_of (template_args r) ''churn'' = Some (PStr (if c = 1 then ''Yes'' else ''No'')) \<and>
         map_of (template_args r) ''prob_percentage'' = Some (PFloat (float_mul e p 100)))) \<and>
   (corrected_predict e form st = (r2, st2) \<and>
    map_of (template_args r2) ''success'' = Some (PBool True) \<longrightarrow>
      (\<exists>df c p. select_columns EXPECTED_COLUMNS (form_frame form) = Inr df \<and>
         art_predict (model e) df = Inr c \<and> art_predict_proba (model e) df = Inr p \<and>
         map_of (template_args r2) ''churn'' = Some (PStr (if c = 1 then ''Yes'' else ''No'')) \<and>
         map_of (template_args r2) ''probability'' =
           Some (PStr (format_2f (float_mul e p 100) @ ''%'')))) \<and>
   (api_predict e request st = ((PDict body, 200), st3) \<longrightarrow>
      (\<exists>d df c p. request = Inr (PDict d) \<and>
         select_columns EXPECTED_COLUMNS (snd (dict_pop ''customerID'' d)) = Inr df \<and>
         art_predict (model e) df = Inr c \<and> art_predict_proba (model e) df = Inr p \<and>
         map_of body ''churn_prediction'' = Some (PStr (if c = 1 then ''Yes'' else ''No'')) \<and>
         map_of body ''churn_probability'' = Some (PFloat p)))"
proof (intro conjI impI)
  assume "app_predict e form st = (r, st') \<and>
          map_of (template_args r) ''success'' = Some (PBool True)"
  then have a1: "app_predict e form st = (r, st')"
    and a2: "map_of (template_args r) ''success'' = Some (PBool True)"
    by simp_all
  from app_predict_success[OF a1 a2]
  show "\<exists>df c p. select_columns EXPECTED_COLUMNS (form_frame form) = Inr df \<and>
         art_predict (model e) df = Inr c \<and> art_predict_proba (model e) df = Inr p \<and>
         map_of (template_args r) ''churn'' = Some (PStr (if c = 1 then ''Yes'' else ''No'')) \<and>
         map_of (template_args r) ''prob_percentage'' = Some (PFloat (float_mul e p 100))"
    by (elim exE conjE) auto
next
  assume "corrected_predict e form st = (r2, st2) \<and>
          map_of (template_args r2) ''success'' = Some (PBool True)"
  then have a1: "corrected_predict e form st = (r2, st2)"
    and a2: "map_of (template_args r2) ''success'' = Some (PBool True)"
    by simp_all
  from corrected_predict_success[OF a1 a2]
  show "\<exists>df c p. select_columns EXPECTED_COLUMNS (form_frame form) = Inr df \<and>
         art_predict (model e) df = Inr c \<and> art_predict_proba (model e) df = Inr p \<and>
         map_of (template_args r2) ''churn'' = Some (PStr (if c = 1 then ''Yes'' else ''No'')) \<and>
         map_of (template_args r2) ''probability'' =
           Some (PStr (format_2f (float_mul e p 100) @ ''%''))"
    by (elim exE conjE) auto
next
  assume a: "api_predict e request st = ((PDict body, 200), st3)"
  from api_predict_success[OF a refl]
  show "\<exists>d df c p. request = Inr (PDict d) \<and>
         select_columns EXPECTED_COLUMNS (snd (dict_pop ''customerID'' d)) = Inr df \<and>
         art_predict (model e) df = Inr c \<and> art_predict_proba (model e) df = Inr p \<and>
         map_of body ''churn_prediction'' = Some (PStr (if c = 1 then ''Yes'' else ''No'')) \<and>
         map_of body ''churn_probability'' = Some (PFloat p)"
    by (elim exE conjE) auto
qed

theorem label_follows_predicted_class_witness:
  "map_of (template_args (fst (app_predict (stub_env 0 (1 / 2)) full_form st0))) ''success'' =
     Some (PBool True) \<and>
   (\<exists>df c p. art_predict (model (stub_env 0 (1 / 2))) df = Inr c \<and> c = 0 \<and>
      map_of (template_args (fst (app_predict (stub_env 0 (1 / 2)) full_form st0))) ''churn'' =
        Some (PStr (if c = 1 then ''Yes'' else ''No'')))"
proof -
  let ?e = "stub_env 0 (1 / 2)"
  have h: "map_of (template_args (fst (app_predict ?e full_form st0))) ''success'' =
             Some (PBool True)"
    by (rule full_form_success)
  have "app_predict ?e full_form st0 =
          (fst (app_predict ?e full_form st0), snd (app_predict ?e full_form st0))"
    by simp
  with h label_follows_predicted_class
         [of ?e full_form st0 "fst (app_predict ?e full_form st0)"
             "snd (app_predict ?e full_form st0)", THEN conjunct1]
  have "\<exists>df c p. select_columns EXPECTED_COLUMNS (form_frame full_form) = Inr df \<and>
         art_predict (model ?e) df = Inr c \<and> art_predict_proba (model ?e) df = Inr p \<and>
         map_of (template_args (fst (app_predict ?e full_form st0))) ''churn'' =
           Some (PStr (if c = 1 then ''Yes'' else ''No'')) \<and>
         map_of (template_args (fst (app_predict ?e full_form st0))) ''prob_percentage'' =
           Some (PFloat (float_mul ?e p 100))"
    by blast
  then obtain df c p where c: "art_predict (model ?e) df = Inr c"
    and r: "map_of (template_args (fst (app_predict ?e full_form st0))) ''churn'' =
            Some (PStr (if c = 1 then ''Yes'' else ''No''))"
    by (elim exE conjE)
  from c have "c = 0" by (simp add: stub_env_def)
  with c r h show ?thesis by blast
qed


text \<open>
  The claim as written, with the probability compared against 0.5, fails: an artifact
  that answers class 0 with probability exactly 0.5 gives the label \<open>No\<close> next to
  \<open>50.00%\<close>, in the form handlers and in the JSON endpoint.
\<close>

theorem label_threshold_counterexample:
  "map_of (template_args (fst (app_predict (stub_env 0 (1 / 2)) full_form st0))) ''success'' =
     Some (PBool True) \<and>
   map_of (template_args (fst (app_predict (stub_env 0 (1 / 2)) full_form st0))) ''churn'' =
     Some (PStr ''No'') \<and>
   map_of (template_args (fst (app_predict (stub_env 0 (1 / 2)) full_form st0)))
     ''prob_percentage'' = Some (PFloat 50) \<and>
   map_of (template_args (fst (app_predict (stub_env 0 (1 / 2)) full_form st0)))
     ''probability'' = Some (PStr ''50.00%'') \<and>
   fst (api_predict (stub_env 0 (1 / 2)) (Inr (PDict (form_dict full_form))) st0) =
     (PDict [(''success'', PBool True),
             (''customer_id'', PStr ''CUST001''),
             (''churn_prediction'', PStr ''No''),
             (''churn_probability'', PFloat (1 / 2)),
             (''confidence'', PStr ''50.00%'')], 200) \<and>
   (1 / 2 :: real) \<ge> 0.5"
  by (simp add: full_form_app_predict full_form_api_predict risk_of_def
        format_2f_def round_half_even_def digit_char_def)

subsection \<open>Selection by name\<close>

lemma map_of_popped: "c \<noteq> k \<Longrightarrow> map_of (snd (dict_pop k d)) c = map_of d c"
  by (induction d) (auto simp: dict_pop_def)

lemma map_of_form_frame:
  "c \<noteq> ''customerID'' \<Longrightarrow> map_of (form_frame f) c = map_option PStr (map_of f c)"
  by (simp add: form_frame_def map_of_form_dict map_of_popped)

lemma expected_not_customerID: "c \<in> set EXPECTED_COLUMNS \<Longrightarrow> c \<noteq> ''customerID''"
  using customerID_not_expected by auto

lemma same_values_same_keys:
  assumes "set cols \<subseteq> fst ` set f1" and "\<forall>c\<in>set cols. map_of f2 c = map_of f1 c"
  shows "set cols \<subseteq> fst ` set f2"
proof
  fix c assume c: "c \<in> set cols"
  with assms(1) have "map_of f1 c \<noteq> None" by (auto simp: map_of_eq_None_iff)
  with assms(2) c have "map_of f2 c \<noteq> None" by simp
  then show "c \<in> fst ` set f2" by (simp add: map_of_eq_None_iff)
qed

lemma same_form_same_frame:
  assumes "set EXPECTED_COLUMNS \<subseteq> fst ` set f1"
    and "\<forall>c\<in>set EXPECTED_COLUMNS. map_of f2 c = map_of f1 c"
  shows "\<exists>df. select_columns EXPECTED_COLUMNS (form_frame f1) = Inr df \<and>
              select_columns EXPECTED_COLUMNS (form_frame f2) = Inr df \<and>
              columns df = EXPECTED_COLUMNS \<and>
              (\<forall>c\<in>set EXPECTED_COLUMNS. map_of df c = map_option PStr (map_of f1 c))"
proof -
  from assms(1) have "absent_names (fst ` set f1) = []" by (simp add: absent_names_empty)
  then obtain df where df: "select_columns EXPECTED_COLUMNS (form_frame f1) = Inr df"
    using select_form_frame by blast
  have "select_columns EXPECTED_COLUMNS (form_frame f2) =
        select_columns EXPECTED_COLUMNS (form_frame f1)"
    by (rule select_columns_cong) (simp add: map_of_form_frame expected_not_customerID assms(2))
  moreover from select_columns_Inr[OF df]
  have "columns df = EXPECTED_COLUMNS"
    and "\<forall>c\<in>set EXPECTED_COLUMNS. map_of df c = map_option PStr (map_of f1 c)"
    by (simp_all add: columns_def map_of_form_frame expected_not_customerID)
  ultimately show ?thesis using df by simp
qed

lemma same_json_same_frame:
  assumes "set EXPECTED_COLUMNS \<subseteq> fst ` set d1"
    and "\<forall>c\<in>set EXPECTED_COLUMNS. map_of d2 c = map_of d1 c"
  shows "\<exists>df. select_columns EXPECTED_COLUMNS (snd (dict_pop ''customerID'' d1)) = Inr df \<and>
              select_columns EXPECTED_COLUMNS (snd (dict_pop ''customerID'' d2)) = Inr df \<and>
              columns df = EXPECTED_COLUMNS \<and>
              (\<forall>c\<in>set EXPECTED_COLUMNS. map_of df c = map_of d1 c)"
proof -
  from assms(1) have "absent_names (fst ` set d1) = []" by (simp add: absent_names_empty)
  then obtain df where df: "select_columns EXPECTED_COLUMNS (snd (dict_pop ''customerID'' d1)) = Inr df"
    using select_json_frame by blast
  have "select_columns EXPECTED_COLUMNS (snd (dict_pop ''customerID'' d2)) =
        select_columns EXPECTED_COLUMNS (snd (dict_pop ''customerID'' d1))"
    by (rule select_columns_cong) (simp add: map_of_popped expected_not_customerID assms(2))
  moreover from select_columns_Inr[OF df]
  have "columns df = EXPECTED_COLUMNS"
    and "\<forall>c\<in>set EXPECTED_COLUMNS. map_of df c = map_of d1 c"
    by (simp_all add: columns_def map_of_popped expected_not_customerID)
  ultimately show ?thesis using df by simp
qed

text \<open>
  Once the frame is selected, the outcome of a handler depends on the submission only
  through the frame, the echoed identifier and the echoed data.
\<close>

lemma app_predict_by_frame:
  assumes "set EXPECTED_COLUMNS \<subseteq> fst ` set f1" "set EXPECTED_COLUMNS \<subseteq> fst ` set f2"
    and "select_columns EXPECTED_COLUMNS (form_frame f1) = Inr df"
    and "select_columns EXPECTED_COLUMNS (form_frame f2) = Inr df"
  shows "new_calls s1 (snd (app_predict e f1 s1)) = new_calls s2 (snd (app_predict e f2 s2)) \<and>
         set (new_calls s1 (snd (app_predict e f1 s1))) \<subseteq> {CallPredict df, CallPredictProba df} \<and>
         (\<forall>k. k \<notin> {''customer_id'', ''data''} \<longrightarrow>
            map_of (template_args (fst (app_predict e f1 s1))) k =
            map_of (template_args (fst (app_predict e f2 s2))) k)"
  using assms
  by (cases "art_predict (model e) df"; cases "art_predict_proba (model e) df")
     (simp_all add: app_predict_def app_predict_try_eq absent_names_empty new_calls_def)

lemma corrected_predict_by_frame:
  assumes "set EXPECTED_COLUMNS \<subseteq> fst ` set f1" "set EXPECTED_COLUMNS \<subseteq> fst ` set f2"
    and "select_columns EXPECTED_COLUMNS (form_frame f1) = Inr df"
    and "select_columns EXPECTED_COLUMNS (form_frame f2) = Inr df"
  shows "new_calls s1 (snd (corrected_predict e f1 s1)) =
           new_calls s2 (snd (corrected_predict e f2 s2)) \<and>
         set (new_calls s1 (snd (corrected_predict e f1 s1))) \<subseteq>
           {CallPredict df, CallPredictProba df} \<and>
         (\<forall>k. k \<notin> {''customer_id'', ''data''} \<longrightarrow>
            map_of (template_args (fst (corrected_predict e f1 s1))) k =
            map_of (template_args (fst (corrected_predict e f2 s2))) k)"
  using assms
  by (cases "art_predict (model e) df"; cases "art_predict_proba (model e) df")
     (simp_all add: corrected_predict_def corrected_predict_try_eq absent_names_empty
        new_calls_def)

lemma api_predict_by_frame:
  assumes "set EXPECTED_COLUMNS \<subseteq> fst ` set d1" "set EXPECTED_COLUMNS \<subseteq> fst ` set d2"
    and "select_columns EXPECTED_COLUMNS (snd (dict_pop ''customerID'' d1)) = Inr df"
    and "select_columns EXPECTED_COLUMNS (snd (dict_pop ''customerID'' d2)) = Inr df"
  shows "new_calls s1 (snd (api_predict e (Inr (PDict d1)) s1)) =
           new_calls s2 (snd (api_predict e (Inr (PDict d2)) s2)) \<and>
         set (new_calls s1 (snd (api_predict e (Inr (PDict d1)) s1))) \<subseteq>
           {CallPredict df, CallPredictProba df} \<and>
         snd (fst (api_predict e (Inr (PDict d1)) s1)) =
           snd (fst (api_predict e (Inr (PDict d2)) s2)) \<and>
         (\<forall>k. k \<noteq> ''customer_id'' \<longrightarrow>
            map_of (json_fields (fst (fst (api_predict e (Inr (PDict d1)) s1)))) k =
            map_of (json_fields (fst (fst (api_predict e (Inr (PDict d2)) s2)))) k)"
  using assms
  by (cases "art_predict (model e) df"; cases "art_predict_proba (model e) df")
     (simp_all add: api_predict_def api_predict_try_eq absent_names_empty new_calls_def
        json_fields_def)

text \<open>
  C5. Two submissions that give every expected attribute the same value, in any order
  and with any further attributes, are turned into the same frame by the selection step
  of each handler: the frame has exactly the expected columns in the expected order, with
  the submitted values. The artifact is invoked with that frame only, so both requests
  make the same artifact calls and their responses agree on every field except the echoed
  identifier and the echoed data: the same label, probability, risk tier and, on failure,
  the same error.
\<close>

theorem submission_order_irrelevant:
  "(set EXPECTED_COLUMNS \<subseteq> fst ` set f1 \<and>
    (\<forall>c\<in>set EXPECTED_COLUMNS. map_of f2 c = map_of f1 c) \<longrightarrow>
      (\<exists>df. select_columns EXPECTED_COLUMNS (form_frame f1) = Inr df \<and>
            select_columns EXPECTED_COLUMNS (form_frame f2) = Inr df \<and>
            columns df = EXPECTED_COLUMNS \<and>
            (\<forall>c\<in>set EXPECTED_COLUMNS. map_of df c = map_option PStr (map_of f1 c)) \<and>
            set (new_calls s1 (snd (app_predict e f1 s1))) \<subseteq>
              {CallPredict df, CallPredictProba df} \<and>
            set (new_calls s1 (snd (corrected_predict e f1 s1))) \<subseteq>
              {CallPredict df, CallPredictProba df}) \<and>
      new_calls s1 (snd (app_predict e f1 s1)) = new_calls s2 (snd (app_predict e f2 s2)) \<and>
      (\<forall>k. k \<notin> {''customer_id'', ''data''} \<longrightarrow>
         map_of (template_args (fst (app_predict e f1 s1))) k =
         map_of (template_args (fst (app_predict e f2 s2))) k) \<and>
      new_calls s1 (snd (corrected_predict e f1 s1)) =
        new_calls s2 (snd (corrected_predict e f2 s2)) \<and>
      (\<forall>k. k \<notin> {''customer_id'', ''data''} \<longrightarrow>
         map_of (template_args (fst (corrected_predict e f1 s1))) k =
         map_of (template_args (fst (corrected_predict e f2 s2))) k)) \<and>
   (set EXPECTED_COLUMNS \<subseteq> fst ` set d1 \<and>
    (\<forall>c\<in>set EXPECTED_COLUMNS. map_of d2 c = map_of d1 c) \<longrightarrow>
      (\<exists>df. select_columns EXPECTED_COLUMNS (snd (dict_pop ''customerID'' d1)) = Inr df \<and>
            select_columns EXPECTED_COLUMNS (snd (dict_pop ''customerID'' d2)) = Inr df \<and>
            columns df = EXPECTED_COLUMNS \<and>
            (\<forall>c\<in>set EXPECTED_COLUMNS. map_of df c = map_of d1 c) \<and>
            set (new_calls s1 (snd (api_predict e (Inr (PDict d1)) s1))) \<subseteq>
              {CallPredict df, CallPredictProba df}) \<and>
      new_calls s1 (snd (api_predict e (Inr (PDict d1)) s1)) =
        new_calls s2 (snd (api_predict e (Inr (PDict d2)) s2)) \<and>
      snd (fst (api_predict e (Inr (PDict d1)) s1)) =
        snd (fst (api_predict e (Inr (PDict d2)) s2)) \<and>
      (\<forall>k. k \<noteq> ''customer_id'' \<longrightarrow>
         map_of (json_fields (fst (fst (api_predict e (Inr (PDict d1)) s1)))) k =
         map_of (json_fields (fst (fst (api_predict e (Inr (PDict d2)) s2)))) k))"
proof (intro conjI impI)
  assume a: "set EXPECTED_COLUMNS \<subseteq> fst ` set f1 \<and>
             (\<forall>c\<in>set EXPECTED_COLUMNS. map_of f2 c = map_of f1 c)"
  then have k1: "set EXPECTED_COLUMNS \<subseteq> fst ` set f1"
    and eq: "\<forall>c\<in>set EXPECTED_COLUMNS. map_of f2 c = map_of f1 c"
    by simp_all
  from same_values_same_keys[OF k1 eq] have k2: "set EXPECTED_COLUMNS \<subseteq> fst ` set f2" .
  from same_form_same_frame[OF k1 eq]
  obtain df where s1: "select_columns EXPECTED_COLUMNS (form_frame f1) = Inr df"
    and s2: "select_columns EXPECTED_COLUMNS (form_frame f2) = Inr df"
    and cols: "columns df = EXPECTED_COLUMNS"
    and vals: "\<forall>c\<in>set EXPECTED_COLUMNS. map_of df c = map_option PStr (map_of f1 c)"
    by (elim exE conjE)
  note A = app_predict_by_frame[OF k1 k2 s1 s2, of s1 e s2]
  note B = corrected_predict_by_frame[OF k1 k2 s1 s2, of s1 e s2]
  note A2 = A[THEN conjunct2, THEN conjunct1]
  note B2 = B[THEN conjunct2, THEN conjunct1]
  show "\<exists>df. select_columns EXPECTED_COLUMNS (form_frame f1) = Inr df \<and>
            select_columns EXPECTED_COLUMNS (form_frame f2) = Inr df \<and>
            columns df = EXPECTED_COLUMNS \<and>
            (\<forall>c\<in>set EXPECTED_COLUMNS. map_of df c = map_option PStr (map_of f1 c)) \<and>
            set (new_calls s1 (snd (app_predict e f1 s1))) \<subseteq>
              {CallPredict df, CallPredictProba df} \<and>
            set (new_calls s1 (snd (corrected_predict e f1 s1))) \<subseteq>
              {CallPredict df, CallPredictProba df}"
    by (intro exI[of _ df] conjI) (rule s1 s2 cols vals A2 B2)+
  from A show "new_calls s1 (snd (app_predict e f1 s1)) =
               new_calls s2 (snd (app_predict e f2 s2))"
    by (rule conjunct1)
  from A show "\<forall>k. k \<notin> {''customer_id'', ''data''} \<longrightarrow>
         map_of (template_args (fst (app_predict e f1 s1))) k =
         map_of (template_args (fst (app_predict e f2 s2))) k"
    by simp
  from B show "new_calls s1 (snd (corrected_predict e f1 s1)) =
        new_calls s2 (snd (corrected_predict e f2 s2))"
    by (rule conjunct1)
  from B show "\<forall>k. k \<notin> {''customer_id'', ''data''} \<longrightarrow>
         map_of (template_args (fst (corrected_predict e f1 s1))) k =
         map_of (template_args (fst (corrected_predict e f2 s2))) k"
    by simp
next
  assume a: "set EXPECTED_COLUMNS \<subseteq> fst ` set d1 \<and>
             (\<forall>c\<in>set EXPECTED_COLUMNS. map_of d2 c = map_of d1 c)"
  then have k1: "set EXPECTED_COLUMNS \<subseteq> fst ` set d1"
    and eq: "\<forall>c\<in>set EXPECTED_COLUMNS. map_of d2 c = map_of d1 c"
    by simp_all
  from same_values_same_keys[OF k1 eq] have k2: "set EXPECTED_COLUMNS \<subseteq> fst ` set d2" .
  from same_json_same_frame[OF k1 eq]
  obtain df where s1: "select_columns EXPECTED_COLUMNS (snd (dict_pop ''customerID'' d1)) = Inr df"
    and s2: "select_columns EXPECTED_COLUMNS (snd (dict_pop ''customerID'' d2)) = Inr df"
    and cols: "columns df = EXPECTED_COLUMNS"
    and vals: "\<forall>c\<in>set EXPECTED_COLUMNS. map_of df c = map_of d1 c"
    by (elim exE conjE)
  note C = api_predict_by_frame[OF k1 k2 s1 s2, of s1 e s2]
  note C2 = C[THEN conjunct2, THEN conjunct1]
  show "\<exists>df. select_columns EXPECTED_COLUMNS (snd (dict_pop ''customerID'' d1)) = Inr df \<and>
            select_columns EXPECTED_COLUMNS (snd (dict_pop ''customerID'' d2)) = Inr df \<and>
            columns df = EXPECTED_COLUMNS \<and>
            (\<forall>c\<in>set EXPECTED_COLUMNS. map_of df c = map_of d1 c) \<and>
            set (new_calls s1 (snd (api_predict e (Inr (PDict d1)) s1))) \<subseteq>
              {CallPredict df, CallPredictProba df}"
    by (intro exI[of _ df] conjI) (rule s1 s2 cols vals C2)+
  from C show "new_calls s1 (snd (api_predict e (Inr (PDict d1)) s1)) =
        new_calls s2 (snd (api_predict e (Inr (PDict d2)) s2))"
    by (rule conjunct1)
  from C show "snd (fst (api_predict e (Inr (PDict d1)) s1)) =
        snd (fst (api_predict e (Inr (PDict d2)) s2))"
    by simp
  from C show "\<forall>k. k \<noteq> ''customer_id'' \<longrightarrow>
         map_of (json_fields (fst (fst (api_predict e (Inr (PDict d1)) s1)))) k =
         map_of (json_fields (fst (fst (api_predict e (Inr (PDict d2)) s2)))) k"
    by simp
qed

theorem submission_order_irrelevant_witness:
  "set EXPECTED_COLUMNS \<subseteq> fst ` set full_form \<and>
   list_all (\<lambda>c. map_of shuffled_form c = map_of full_form c) EXPECTED_COLUMNS \<and>
   select_columns EXPECTED_COLUMNS (form_frame shuffled_form) = Inr full_frame \<and>
   new_calls st0 (snd (app_predict (stub_env 1 (27 / 64)) shuffled_form st0)) =
     [CallPredict full_frame, CallPredictProba full_frame] \<and>
   map_of (template_args (fst (app_predict (stub_env 1 (27 / 64)) shuffled_form st0)))
     ''churn'' = Some (PStr ''Yes'') \<and>
   map_of (template_args (fst (app_predict (stub_env 1 (27 / 64)) shuffled_form st0)))
     ''prob_percentage'' = Some (PFloat (675 / 16)) \<and>
   map_of (template_args (fst (app_predict (stub_env 1 (27 / 64)) shuffled_form st0)))
     ''risk_level'' = Some (PStr ''medium'')"
proof -
  let ?e = "stub_env 1 (27 / 64)"
  have h2: "\<forall>c\<in>set EXPECTED_COLUMNS. map_of shuffled_form c = map_of full_form c"
    by (simp add: EXPECTED_COLUMNS_def shuffled_form_def full_form_def)
  then have h2': "list_all (\<lambda>c. map_of shuffled_form c = map_of full_form c) EXPECTED_COLUMNS"
    by (simp add: list_all_iff)
  note T = submission_order_irrelevant[of full_form shuffled_form st0 ?e st0,
             THEN conjunct1, rule_format, OF conjI, OF full_form_keys h2]
  from T obtain df where "select_columns EXPECTED_COLUMNS (form_frame full_form) = Inr df"
    and "select_columns EXPECTED_COLUMNS (form_frame shuffled_form) = Inr df"
    by (elim exE conjE)
  then have sel: "select_columns EXPECTED_COLUMNS (form_frame shuffled_form) = Inr full_frame"
    by (simp add: full_form_selected)
  from T have calls: "new_calls st0 (snd (app_predict ?e full_form st0)) =
                      new_calls st0 (snd (app_predict ?e shuffled_form st0))"
    by (elim exE conjE)
  from T have fields: "\<And>k. k \<notin> {''customer_id'', ''data''} \<Longrightarrow>
         map_of (template_args (fst (app_predict ?e full_form st0))) k =
         map_of (template_args (fst (app_predict ?e shuffled_form st0))) k"
    by (elim exE conjE) simp
  have "new_calls st0 (snd (app_predict ?e shuffled_form st0)) =
          [CallPredict full_frame, CallPredictProba full_frame]"
    using calls by (simp add: full_form_app_predict new_calls_def st0_def)
  moreover have "map_of (template_args (fst (app_predict ?e shuffled_form st0))) ''churn'' =
                   Some (PStr ''Yes'')"
    using fields[of "''churn''"] by (simp add: full_form_app_predict)
  moreover have "map_of (template_args (fst (app_predict ?e shuffled_form st0)))
                   ''prob_percentage'' = Some (PFloat (675 / 16))"
    using fields[of "''prob_percentage''"] by (simp add: full_form_app_predict)
  moreover have "map_of (template_args (fst (app_predict ?e shuffled_form st0)))
                   ''risk_level'' = Some (PStr ''medium'')"
    using fields[of "''risk_level''"] by (simp add: full_form_app_predict risk_of_def)
  ultimately show ?thesis
    using full_form_keys h2' sel by (intro conjI)
qed

subsection \<open>The two-decimal format\<close>

declare str_nat.simps [simp del]

lemma is_digit_digit_char: "d < 10 \<Longrightarrow> is_digit (digit_char d)"
  unfolding is_digit_def digit_char_def by (rule nth_mem) simp

lemma is_digit_not_minus: "is_digit c \<Longrightarrow> c \<noteq> CHR ''-''"
  by (auto simp: is_digit_def)

lemma str_nat_digits: "str_nat n \<noteq> [] \<and> list_all is_digit (str_nat n)"
proof (induction n rule: str_nat.induct)
  case (1 n)
  show ?case
  proof (cases "n < 10")
    case True
    then show ?thesis
      by (subst str_nat.simps, subst (2) str_nat.simps) (simp add: is_digit_digit_char)
  next
    case False
    with 1 have "str_nat (n div 10) \<noteq> [] \<and> list_all is_digit (str_nat (n div 10))" by simp
    with False show ?thesis
      by (subst str_nat.simps, subst (2) str_nat.simps) (simp add: is_digit_digit_char)
  qed
qed

lemma format_2f_two_decimals: "two_decimal_percent (format_2f x @ ''%'')"
proof -
  define q where "q = round_half_even (\<bar>x\<bar> * 100)"
  define ip where "ip = str_nat (q div 100)"
  have ip: "ip \<noteq> []" "list_all is_digit ip"
    using str_nat_digits[of "q div 100"] by (simp_all add: ip_def)
  then have "is_digit (hd ip)" by (cases ip) simp_all
  then have nm: "hd ip \<noteq> CHR ''-''" by (rule is_digit_not_minus)
  have d1: "is_digit (digit_char (q mod 100 div 10))" by (rule is_digit_digit_char) simp
  have d2: "is_digit (digit_char (q mod 10))" by (rule is_digit_digit_char) simp
  have l: "last (rev ip) = hd ip" using ip(1) by (simp add: last_rev)
  show ?thesis
  proof (cases "x < 0")
    case True
    then have "format_2f x @ ''%'' =
                 ''-'' @ ip @ ''.'' @ [digit_char (q mod 100 div 10), digit_char (q mod 10)] @ ''%''"
      by (simp add: format_2f_def Let_def q_def ip_def)
    then show ?thesis
      using ip d1 d2 by (simp add: two_decimal_percent_def)
  next
    case False
    then have "format_2f x @ ''%'' =
                 ip @ ''.'' @ [digit_char (q mod 100 div 10), digit_char (q mod 10)] @ ''%''"
      by (simp add: format_2f_def Let_def q_def ip_def)
    then show ?thesis
      using ip d1 d2 nm l by (simp add: two_decimal_percent_def)
  qed
qed

subsection \<open>The JSON endpoint\<close>

text \<open>
  C7. A valid request to the JSON endpoint is a dict with every expected attribute for
  which the artifact answers a class and a probability in [0,1]. Its response has status
  200 and exactly five fields: \<open>success\<close> true, the identifier sent as \<open>customerID\<close>
  (or null), the label \<open>Yes\<close> or \<open>No\<close>, the probability unchanged (so in [0,1]) and the
  percentage with exactly two decimals. Every response with another status is an object
  with an error message and \<open>success\<close> false, and its status is 400 or 500; a response
  with status 200 comes from a dict with every expected attribute and is that success
  object.
\<close>

theorem api_response_shape:
  "(set EXPECTED_COLUMNS \<subseteq> fst ` set d \<and>
    select_columns EXPECTED_COLUMNS (snd (dict_pop ''customerID'' d)) = Inr df \<and>
    art_predict (model e) df = Inr c \<and> art_predict_proba (model e) df = Inr p \<and>
    0 \<le> p \<and> p \<le> 1 \<longrightarrow>
      api_predict e (Inr (PDict d)) st =
        ((PDict [(''success'', PBool True),
                 (''customer_id'', (case map_of d ''customerID'' of None \<Rightarrow> PNone | Some v \<Rightarrow> v)),
                 (''churn_prediction'', PStr (if c = 1 then ''Yes'' else ''No'')),
                 (''churn_probability'', PFloat p),
                 (''confidence'', PStr (format_2f (float_mul e p 100) @ ''%''))], 200),
         st\<lparr>calls := calls st @ [CallPredict df, CallPredictProba df]\<rparr>) \<and>
      (\<exists>q. map_of (json_fields (fst (fst (api_predict e (Inr (PDict d)) st))))
              ''churn_probability'' = Some (PFloat q) \<and> 0 \<le> q \<and> q \<le> 1)) \<and>
   two_decimal_percent (format_2f (float_mul e p 100) @ ''%'') \<and>
   (api_predict e request st = ((body, status), st') \<longrightarrow>
      (status = 200 \<and>
       (\<exists>d' df' c' p'. request = Inr (PDict d') \<and> set EXPECTED_COLUMNS \<subseteq> fst ` set d' \<and>
          select_columns EXPECTED_COLUMNS (snd (dict_pop ''customerID'' d')) = Inr df' \<and>
          art_predict (model e) df' = Inr c' \<and> art_predict_proba (model e) df' = Inr p' \<and>
          body = PDict
                  [(''success'', PBool True),
                   (''customer_id'',
                      (case map_of d' ''customerID'' of None \<Rightarrow> PNone | Some v \<Rightarrow> v)),
                   (''churn_prediction'', PStr (if c' = 1 then ''Yes'' else ''No'')),
                   (''churn_probability'', PFloat p'),
                   (''confidence'', PStr (format_2f (float_mul e p' 100) @ ''%''))])) \<or>
      (status \<in> {400, 500} \<and>
       (\<exists>msg. body = PDict [(''error'', PStr msg), (''success'', PBool False)])))"
proof (intro conjI impI)
  assume a: "set EXPECTED_COLUMNS \<subseteq> fst ` set d \<and>
    select_columns EXPECTED_COLUMNS (snd (dict_pop ''customerID'' d)) = Inr df \<and>
    art_predict (model e) df = Inr c \<and> art_predict_proba (model e) df = Inr p \<and>
    0 \<le> p \<and> p \<le> 1"
  then show r: "api_predict e (Inr (PDict d)) st =
        ((PDict [(''success'', PBool True),
                 (''customer_id'', (case map_of d ''customerID'' of None \<Rightarrow> PNone | Some v \<Rightarrow> v)),
                 (''churn_prediction'', PStr (if c = 1 then ''Yes'' else ''No'')),
                 (''churn_probability'', PFloat p),
                 (''confidence'', PStr (format_2f (float_mul e p 100) @ ''%''))], 200),
         st\<lparr>calls := calls st @ [CallPredict df, CallPredictProba df]\<rparr>)"
    by (simp add: api_predict_def api_predict_try_eq absent_names_empty)
  from a show "\<exists>q. map_of (json_fields (fst (fst (api_predict e (Inr (PDict d)) st))))
              ''churn_probability'' = Some (PFloat q) \<and> 0 \<le> q \<and> q \<le> 1"
    unfolding r by (simp add: json_fields_def)
next
  show "two_decimal_percent (format_2f (float_mul e p 100) @ ''%'')"
    by (rule format_2f_two_decimals)
next
  assume a: "api_predict e request st = ((body, status), st')"
  show "(status = 200 \<and>
       (\<exists>d' df' c' p'. request = Inr (PDict d') \<and> set EXPECTED_COLUMNS \<subseteq> fst ` set d' \<and>
          select_columns EXPECTED_COLUMNS (snd (dict_pop ''customerID'' d')) = Inr df' \<and>
          art_predict (model e) df' = Inr c' \<and> art_predict_proba (model e) df' = Inr p' \<and>
          body = PDict
                  [(''success'', PBool True),
                   (''customer_id'',
                      (case map_of d' ''customerID'' of None \<Rightarrow> PNone | Some v \<Rightarrow> v)),
                   (''churn_prediction'', PStr (if c' = 1 then ''Yes'' else ''No'')),
                   (''churn_probability'', PFloat p'),
                   (''confidence'', PStr (format_2f (float_mul e p' 100) @ ''%''))])) \<or>
      (status \<in> {400, 500} \<and>
       (\<exists>msg. body = PDict [(''error'', PStr msg), (''success'', PBool False)]))"
  proof (cases "status = 200")
    case True
    from api_predict_success[OF a True] show ?thesis
      using True by (elim exE conjE) (intro disjI1 conjI exI, assumption+)
  next
    case False
    from api_predict_failure[OF a False] show ?thesis by (rule disjI2)
  qed
qed

theorem api_response_shape_witness:
  "set EXPECTED_COLUMNS \<subseteq> fst ` set (form_dict full_form) \<and>
   api_predict (stub_env 1 (27 / 64)) (Inr (PDict (form_dict full_form))) st0 =
     ((PDict [(''success'', PBool True),
              (''customer_id'', PStr ''CUST001''),
              (''churn_prediction'', PStr ''Yes''),
              (''churn_probability'', PFloat (27 / 64)),
              (''confidence'', PStr ''42.19%'')], 200),
      \<lparr>log = [], calls = [CallPredict full_frame, CallPredictProba full_frame]\<rparr>) \<and>
   two_decimal_percent ''42.19%''"
proof -
  let ?e = "stub_env 1 (27 / 64)"
  have k: "set EXPECTED_COLUMNS \<subseteq> fst ` set (form_dict full_form)"
    using full_form_keys by (simp add: keys_form_dict)
  have s: "select_columns EXPECTED_COLUMNS (snd (dict_pop ''customerID'' (form_dict full_form)))
             = Inr full_frame"
    using full_form_selected by (simp add: dict_pop_form_dict form_frame_def)
  have c: "art_predict (model ?e) full_frame = Inr 1"
    and p: "art_predict_proba (model ?e) full_frame = Inr (27 / 64)"
    by (simp_all add: stub_env_def)
  have f: "format_2f (float_mul ?e (27 / 64) 100) = ''42.19''"
    by (simp add: stub_env_def format_2f_def round_half_even_def digit_char_def str_nat.simps)
  have i: "map_of (form_dict full_form) ''customerID'' = Some (PStr ''CUST001'')"
    by (simp add: map_of_form_dict full_form_def)
  from api_response_shape[of "form_dict full_form" full_frame ?e 1 "27 / 64" st0]
       k s c p f i
  show ?thesis by (simp add: st0_def)
qed

subsection \<open>The two form handlers\<close>

lemma form_variants_related:
  "snd (corrected_predict e form st) = snd (app_predict e form st) \<and>
   (\<forall>k. k \<noteq> ''error'' \<longrightarrow>
      map_of (template_args (fst (corrected_predict e form st))) k =
        (if k \<in> {''prob_percentage'', ''risk_level'', ''risk_message''} then None
         else map_of (template_args (fst (app_predict e form st))) k)) \<and>
   (map_of (template_args (fst (corrected_predict e form st))) ''error'' =
      map_of (template_args (fst (app_predict e form st))) ''error'' \<or>
    (\<exists>m. map_of (template_args (fst (app_predict e form st))) ''error'' =
            Some (PStr (''Error: '' @ m)) \<and>
          map_of (template_args (fst (corrected_predict e form st))) ''error'' =
            Some (PStr (''Prediction Error: '' @ m))))"
proof (cases "absent_names (fst ` set form) = []")
  case False
  then show ?thesis
    by (simp add: app_predict_def corrected_predict_def app_predict_try_eq
          corrected_predict_try_eq)
next
  case True
  then obtain df where df: "select_columns EXPECTED_COLUMNS (form_frame form) = Inr df"
    using select_form_frame by blast
  show ?thesis
  proof (cases "art_predict (model e) df")
    case (Inl x)
    with True df show ?thesis
      by (simp add: app_predict_def corrected_predict_def app_predict_try_eq
            corrected_predict_try_eq)
  next
    case c: (Inr c)
    show ?thesis
    proof (cases "art_predict_proba (model e) df")
      case (Inl x)
      with True df c show ?thesis
        by (simp add: app_predict_def corrected_predict_def app_predict_try_eq
              corrected_predict_try_eq)
    next
      case (Inr p)
      with True df c show ?thesis
        by (simp add: app_predict_def corrected_predict_def app_predict_try_eq
              corrected_predict_try_eq)
    qed
  qed
qed

text \<open>
  C9. For every form submission the form handler of app.py and the one of
  app\_corrected.py leave the same server state (the same artifact calls on the same
  frames, the same log lines) and pass the same label, the same percentage string, the
  same success flag, the same echoed identifier and data to the same template. They
  differ in three arguments only app.py passes (the percentage as a number, the risk
  level and the risk message) and in the prefix of the message for an exception that is
  not a \<open>ValueError\<close> (\<open>Error: \<close> against \<open>Prediction Error: \<close>). A submission
  that lacks an expected attribute gets the identical response from both.
\<close>

theorem form_variants_agree:
  "snd (corrected_predict e form st) = snd (app_predict e form st) \<and>
   map_of (template_args (fst (corrected_predict e form st))) ''churn'' =
     map_of (template_args (fst (app_predict e form st))) ''churn'' \<and>
   map_of (template_args (fst (corrected_predict e form st))) ''probability'' =
     map_of (template_args (fst (app_predict e form st))) ''probability'' \<and>
   (\<forall>k. k \<notin> {''prob_percentage'', ''risk_level'', ''risk_message'', ''error''} \<longrightarrow>
      map_of (template_args (fst (corrected_predict e form st))) k =
      map_of (template_args (fst (app_predict e form st))) k) \<and>
   map_of (template_args (fst (corrected_predict e form st))) ''prob_percentage'' = None \<and>
   map_of (template_args (fst (corrected_predict e form st))) ''risk_level'' = None \<and>
   map_of (template_args (fst (corrected_predict e form st))) ''risk_message'' = None \<and>
   (map_of (template_args (fst (corrected_predict e form st))) ''error'' =
      map_of (template_args (fst (app_predict e form st))) ''error'' \<or>
    (\<exists>m. map_of (template_args (fst (app_predict e form st))) ''error'' =
            Some (PStr (''Error: '' @ m)) \<and>
          map_of (template_args (fst (corrected_predict e form st))) ''error'' =
            Some (PStr (''Prediction Error: '' @ m)))) \<and>
   (\<not> set EXPECTED_COLUMNS \<subseteq> fst ` set form \<longrightarrow>
      corrected_predict e form st = app_predict e form st)"
proof -
  note R = form_variants_related[of e form st]
  note R2 = R[THEN conjunct2, THEN conjunct1, rule_format]
  have m: "\<not> set EXPECTED_COLUMNS \<subseteq> fst ` set form \<longrightarrow>
             corrected_predict e form st = app_predict e form st"
    by (simp add: app_predict_def corrected_predict_def app_predict_try_eq
          corrected_predict_try_eq absent_names_empty)
  show ?thesis
  proof (intro conjI allI impI)
    show "snd (corrected_predict e form st) = snd (app_predict e form st)"
      using R by (rule conjunct1)
    show "map_of (template_args (fst (corrected_predict e form st))) ''churn'' =
          map_of (template_args (fst (app_predict e form st))) ''churn''"
      using R2[of "''churn''"] by simp
    show "map_of (template_args (fst (corrected_predict e form st))) ''probability'' =
          map_of (template_args (fst (app_predict e form st))) ''probability''"
      using R2[of "''probability''"] by simp
    show "map_of (template_args (fst (corrected_predict e form st))) ''prob_percentage'' = None"
      using R2[of "''prob_percentage''"] by simp
    show "map_of (template_args (fst (corrected_predict e form st))) ''risk_level'' = None"
      using R2[of "''risk_level''"] by simp
    show "map_of (template_args (fst (corrected_predict e form st))) ''risk_message'' = None"
      using R2[of "''risk_message''"] by simp
    show "map_of (template_args (fst (corrected_predict e form st))) ''error'' =
            map_of (template_args (fst (app_predict e form st))) ''error'' \<or>
          (\<exists>m. map_of (template_args (fst (app_predict e form st))) ''error'' =
                  Some (PStr (''Error: '' @ m)) \<and>
                map_of (template_args (fst (corrected_predict e form st))) ''error'' =
                  Some (PStr (''Prediction Error: '' @ m)))"
      using R by (elim conjE)
    show "corrected_predict e form st = app_predict e form st"
      if "\<not> set EXPECTED_COLUMNS \<subseteq> fst ` set form"
      using m that by simp
    show "map_of (template_args (fst (corrected_predict e form st))) k =
          map_of (template_args (fst (app_predict e form st))) k"
      if "k \<notin> {''prob_percentage'', ''risk_level'', ''risk_message'', ''error''}" for k
    proof -
      from that have "k \<noteq> ''error''"
        and "k \<notin> {''prob_percentage'', ''risk_level'', ''risk_message''}"
        by simp_all
      with R2[of k] show ?thesis by (simp only: if_False simp_thms)
    qed
  qed
qed

theorem form_variants_agree_witness:
  "\<not> set EXPECTED_COLUMNS \<subseteq> fst ` set partial_form \<and>
   corrected_predict (stub_env 1 (27 / 64)) partial_form st0 =
     app_predict (stub_env 1 (27 / 64)) partial_form st0 \<and>
   map_of (template_args (fst (app_predict (stub_env 1 (27 / 64)) full_form st0)))
     ''churn'' = Some (PStr ''Yes'') \<and>
   map_of (template_args (fst (corrected_predict (stub_env 1 (27 / 64)) full_form st0)))
     ''churn'' = Some (PStr ''Yes'') \<and>
   snd (corrected_predict (stub_env 1 (27 / 64)) full_form st0) =
     \<lparr>log = [], calls = [CallPredict full_frame, CallPredictProba full_frame]\<rparr>"
proof -
  let ?e = "stub_env 1 (27 / 64)"
  have h: "\<not> set EXPECTED_COLUMNS \<subseteq> fst ` set partial_form"
    by (simp add: EXPECTED_COLUMNS_def partial_form_def)
  have a: "map_of (template_args (fst (app_predict ?e full_form st0))) ''churn'' =
             Some (PStr ''Yes'')"
    and b: "snd (app_predict ?e full_form st0) =
              \<lparr>log = [], calls = [CallPredict full_frame, CallPredictProba full_frame]\<rparr>"
    by (simp_all add: full_form_app_predict st0_def)
  from form_variants_agree[of ?e partial_form st0] h
  have "corrected_predict ?e partial_form st0 = app_predict ?e partial_form st0"
    by simp
  moreover from form_variants_agree[of ?e full_form st0] a b
  have "map_of (template_args (fst (corrected_predict ?e full_form st0))) ''churn'' =
          Some (PStr ''Yes'') \<and>
        snd (corrected_predict ?e full_form st0) =
          \<lparr>log = [], calls = [CallPredict full_frame, CallPredictProba full_frame]\<rparr>"
    by simp
  ultimately show ?thesis using h a by simp
qed

subsection \<open>Failures other than missing columns\<close>

lemma response_ignores_traceback:
  "fst (app_predict (e\<lparr>format_exc := g\<rparr>) form st) = fst (app_predict e form st)"
  "fst (corrected_predict (e\<lparr>format_exc := g\<rparr>) form st) = fst (corrected_predict e form st)"
  "fst (api_predict (e\<lparr>format_exc := g\<rparr>) request st) = fst (api_predict e request st)"
proof -
  have i1: "invoke_predict (e\<lparr>format_exc := g\<rparr>) = invoke_predict e"
    by (intro ext) (simp add: invoke_predict_def)
  have i2: "invoke_predict_proba (e\<lparr>format_exc := g\<rparr>) = invoke_predict_proba e"
    by (intro ext) (simp add: invoke_predict_proba_def)
  have i3: "float_mul (e\<lparr>format_exc := g\<rparr>) = float_mul e"
    by simp
  have a: "app_predict_try (e\<lparr>format_exc := g\<rparr>) form st = app_predict_try e form st"
    unfolding app_predict_try_def i1 i2 i3 by (rule refl)
  have b: "corrected_predict_try (e\<lparr>format_exc := g\<rparr>) form st = corrected_predict_try e form st"
    unfolding corrected_predict_try_def i1 i2 i3 by (rule refl)
  have c: "api_predict_try (e\<lparr>format_exc := g\<rparr>) request st = api_predict_try e request st"
    unfolding api_predict_try_def i1 i2 i3 by (rule refl)
  show "fst (app_predict (e\<lparr>format_exc := g\<rparr>) form st) = fst (app_predict e form st)"
    by (simp add: app_predict_def a split: prod.splits sum.splits)
  show "fst (corrected_predict (e\<lparr>format_exc := g\<rparr>) form st) =
        fst (corrected_predict e form st)"
    by (simp add: corrected_predict_def b split: prod.splits sum.splits)
  show "fst (api_predict (e\<lparr>format_exc := g\<rparr>) request st) = fst (api_predict e request st)"
    by (simp add: api_predict_def c split: prod.splits sum.splits)
qed

text \<open>
  What the generic clauses do. An exception that leaves the \<open>try\<close> block of a form
  handler and is not caught as a \<open>ValueError\<close> gives a page with \<open>success\<close> false whose
  message is a fixed prefix and \<open>str(e)\<close>, and appends one line with the stack trace to
  the server log. In the JSON endpoint every exception that leaves the \<open>try\<close> block does
  so, with status 500. The response of a handler never depends on what
  \<open>traceback.format_exc\<close> returns.
\<close>

lemma generic_clause_failures:
  "(app_predict_try e form st = (Inl x, st1) \<and> exn_class x \<noteq> ValueError \<longrightarrow>
      app_predict e form st =
        (Rendered ''predict.html''
           [(''error'', PStr (''Error: '' @ exn_msg x)),
            (''data'', PDict []), (''success'', PBool False)],
         st1\<lparr>log := log st1 @ [''Prediction failed: '' @ format_exc e x]\<rparr>)) \<and>
   (corrected_predict_try e form st = (Inl x, st2) \<and> exn_class x \<noteq> ValueError \<longrightarrow>
      corrected_predict e form st =
        (Rendered ''predict.html''
           [(''error'', PStr (''Prediction Error: '' @ exn_msg x)),
            (''data'', PDict []), (''success'', PBool False)],
         st2\<lparr>log := log st2 @ [''Prediction failed: '' @ format_exc e x]\<rparr>)) \<and>
   (api_predict_try e request st = (Inl x, st3) \<longrightarrow>
      api_predict e request st =
        ((PDict [(''error'', PStr (exn_msg x)), (''success'', PBool False)], 500),
         st3\<lparr>log := log st3 @ [''API prediction failed: '' @ format_exc e x]\<rparr>)) \<and>
   fst (app_predict (e\<lparr>format_exc := g\<rparr>) form st) = fst (app_predict e form st) \<and>
   fst (corrected_predict (e\<lparr>format_exc := g\<rparr>) form st) = fst (corrected_predict e form st) \<and>
   fst (api_predict (e\<lparr>format_exc := g\<rparr>) request st) = fst (api_predict e request st)"
proof (intro conjI)
  show "fst (app_predict (e\<lparr>format_exc := g\<rparr>) form st) = fst (app_predict e form st)"
    by (rule response_ignores_traceback)
  show "fst (corrected_predict (e\<lparr>format_exc := g\<rparr>) form st) =
        fst (corrected_predict e form st)"
    by (rule response_ignores_traceback)
  show "fst (api_predict (e\<lparr>format_exc := g\<rparr>) request st) = fst (api_predict e request st)"
    by (rule response_ignores_traceback)
qed (simp_all add: app_predict_def corrected_predict_def api_predict_def)

lemma bad_value_form_keys: "set EXPECTED_COLUMNS \<subseteq> fst ` set bad_value_form"
  by (simp add: EXPECTED_COLUMNS_def bad_value_form_def)

lemma bad_value_form_frame: "form_frame bad_value_form = bad_value_frame"
  by (simp add: form_frame_def form_dict_def dict_pop_def bad_value_form_def bad_value_frame_def)

lemma bad_value_frame_selected:
  "select_columns EXPECTED_COLUMNS bad_value_frame = Inr bad_value_frame"
  by (simp add: EXPECTED_COLUMNS_def bad_value_frame_def)

lemma bad_value_frame_tenure: "map_of bad_value_frame ''tenure'' = Some (PStr ''abc'')"
  by (simp add: bad_value_frame_def)

text \<open>
  C6 fails in the two form handlers. A complete submission whose tenure is not a number
  makes the artifact raise a \<open>ValueError\<close> during the invocation. The clause written for
  missing columns catches it: the page reads \<open>Input Error\<close>, as for a structural
  validation error, and nothing is logged. The JSON endpoint, given the same record,
  does what the claim says: status 500, the message alone, and the stack trace in the
  server log.
\<close>

theorem artifact_value_error_shown_as_input_error:
  "set EXPECTED_COLUMNS \<subseteq> fst ` set bad_value_form \<and>
   app_predict strict_env bad_value_form st0 =
     (Rendered ''predict.html''
        [(''error'', PStr ''Input Error: could not convert string to float: abc''),
         (''data'', PDict []), (''success'', PBool False)],
      \<lparr>log = [], calls = [CallPredict bad_value_frame]\<rparr>) \<and>
   corrected_predict strict_env bad_value_form st0 =
     (Rendered ''predict.html''
        [(''error'', PStr ''Input Error: could not convert string to float: abc''),
         (''data'', PDict []), (''success'', PBool False)],
      \<lparr>log = [], calls = [CallPredict bad_value_frame]\<rparr>) \<and>
   api_predict strict_env (Inr (PDict (form_dict bad_value_form))) st0 =
     ((PDict [(''error'', PStr ''could not convert string to float: abc''),
              (''success'', PBool False)], 500),
      \<lparr>log = [''API prediction failed: Traceback (most recent call last): could not convert string to float: abc''],
       calls = [CallPredict bad_value_frame]\<rparr>)"
proof (intro conjI)
  note k = bad_value_form_keys
  have a: "art_predict (model strict_env) bad_value_frame =
             Inl (Exn ValueError ''could not convert string to float: abc'')"
    by (simp add: strict_env_def bad_value_frame_tenure)
  have f: "format_exc strict_env (Exn ValueError ''could not convert string to float: abc'') =
             ''Traceback (most recent call last): could not convert string to float: abc''"
    by (simp add: strict_env_def)
  show "set EXPECTED_COLUMNS \<subseteq> fst ` set bad_value_form" by (rule k)
  show "app_predict strict_env bad_value_form st0 =
     (Rendered ''predict.html''
        [(''error'', PStr ''Input Error: could not convert string to float: abc''),
         (''data'', PDict []), (''success'', PBool False)],
      \<lparr>log = [], calls = [CallPredict bad_value_frame]\<rparr>)"
    using k
    by (simp add: app_predict_def app_predict_try_eq absent_names_empty bad_value_form_frame
          bad_value_frame_selected a st0_def)
  show "corrected_predict strict_env bad_value_form st0 =
     (Rendered ''predict.html''
        [(''error'', PStr ''Input Error: could not convert string to float: abc''),
         (''data'', PDict []), (''success'', PBool False)],
      \<lparr>log = [], calls = [CallPredict bad_value_frame]\<rparr>)"
    using k
    by (simp add: corrected_predict_def corrected_predict_try_eq absent_names_empty
          bad_value_form_frame bad_value_frame_selected a st0_def)
  have s: "select_columns EXPECTED_COLUMNS (snd (dict_pop ''customerID'' (form_dict bad_value_form)))
             = Inr bad_value_frame"
    using bad_value_frame_selected bad_value_form_frame
    by (simp add: dict_pop_form_dict form_frame_def)
  show "api_predict strict_env (Inr (PDict (form_dict bad_value_form))) st0 =
     ((PDict [(''error'', PStr ''could not convert string to float: abc''),
              (''success'', PBool False)], 500),
      \<lparr>log = [''API prediction failed: Traceback (most recent call last): could not convert string to float: abc''],
       calls = [CallPredict bad_value_frame]\<rparr>)"
    using k
    by (simp add: api_predict_def api_predict_try_eq absent_names_empty keys_form_dict
          s a f st0_def)
qed


subsection \<open>The pipeline builder\<close>

text \<open>
  C8, as the script has it. \<open>build_pipeline\<close> is a function of the two name lists alone
  and returns the unfitted preprocessing transform only: a column transformer that sends
  the numeric attributes through median imputation and standard scaling, and the
  categorical attributes through most-frequent imputation and one-hot encoding that
  ignores unknown values and drops the first category. It contains no classifier. The
  class-balanced logistic regression is added by the script, which wraps the builder's
  result and the classifier into the pipeline it fits.
\<close>

theorem build_pipeline_result:
  "build_pipeline nums cats =
     ColumnTransformer
       [(''num'', Pipeline [(''imputer'', SimpleImputer ''median''),
                            (''scaler'', StandardScaler)], nums),
        (''cat'', Pipeline [(''imputer'', SimpleImputer ''most_frequent''),
                            (''onehot'', OneHotEncoder ''ignore'' ''first'')], cats)] \<and>
   named_transformer (build_pipeline nums cats) ''num'' =
     Some (Pipeline [(''imputer'', SimpleImputer ''median''), (''scaler'', StandardScaler)], nums) \<and>
   named_transformer (build_pipeline nums cats) ''cat'' =
     Some (Pipeline [(''imputer'', SimpleImputer ''most_frequent''),
                     (''onehot'', OneHotEncoder ''ignore'' ''first'')], cats) \<and>
   \<not> contains_classifier (build_pipeline nums cats) \<and>
   (build_pipeline nums cats = build_pipeline nums' cats' \<longleftrightarrow> nums = nums' \<and> cats = cats') \<and>
   named_step (final_model nums cats) ''preprocessing'' = Some (build_pipeline nums cats) \<and>
   named_step (final_model nums cats) ''classifier'' = Some (LogisticRegression 1000 ''balanced'') \<and>
   contains_classifier (final_model nums cats)"
  by (simp add: build_pipeline_def final_model_def named_transformer_def named_step_def)

text \<open>
  The claim as written fails: what the builder returns contains no classifier, and has
  no step named \<open>classifier\<close>.
\<close>

theorem build_pipeline_counterexample:
  "\<not> contains_classifier
        (build_pipeline [''SeniorCitizen'', ''tenure'', ''MonthlyCharges'', ''TotalCharges'']
                        [''gender'', ''Partner'', ''Contract'']) \<and>
   named_step
        (build_pipeline [''SeniorCitizen'', ''tenure'', ''MonthlyCharges'', ''TotalCharges'']
                        [''gender'', ''Partner'', ''Contract'']) ''classifier'' = None"
  by (simp add: build_pipeline_def named_step_def)

subsection \<open>The label column\<close>

lemma map_churn_cell:
  "map_churn churn =
     map (\<lambda>cell. if cell = PStr ''Yes'' then Some 1
                  else if cell = PStr ''No'' then Some 0 else None) churn"
proof -
  have "(case cell of PStr s \<Rightarrow> map_of [(''Yes'', 1::int), (''No'', 0)] s | _ \<Rightarrow> None) =
        (if cell = PStr ''Yes'' then Some 1 else if cell = PStr ''No'' then Some 0 else None)"
    for cell
    by (cases cell) simp_all
  then show ?thesis by (simp add: map_churn_def series_map_def)
qed

lemma map_churn_None:
  "None \<in> set (map_churn churn) \<longleftrightarrow> (\<exists>cell\<in>set churn. cell \<noteq> PStr ''Yes'' \<and> cell \<noteq> PStr ''No'')"
  unfolding map_churn_cell by (auto split: if_splits)

text \<open>
  C10, as the script has it. The label mapping sends the cell \<open>Yes\<close> to 1, the cell
  \<open>No\<close> to 0 and every other cell to a missing value, whatever it holds: another
  capitalisation, surrounding white space, a number, an empty cell. The mapping itself
  never fails and keeps every row, and the script never looks at the mapped labels. A
  column with any such cell is not accepted, though: the stratified split that follows
  raises \<open>ValueError\<close> on the missing label, which ends the run before a model is
  fitted or saved. A column of \<open>Yes\<close> and \<open>No\<close> cells only goes on to the shuffle and
  the fit.
\<close>

theorem churn_label_mapping:
  "map_churn churn =
     map (\<lambda>cell. if cell = PStr ''Yes'' then Some 1
                  else if cell = PStr ''No'' then Some 0 else None) churn \<and>
   length (map_churn churn) = length churn \<and>
   map_churn [PStr ''Yes'', PStr ''No'', PStr ''yes'', PStr ''YES'', PStr ''no'',
              PStr '' Yes'', PStr ''No '', PStr '''', PNone, PInt 1, PBool True] =
     [Some 1, Some 0, None, None, None, None, None, None, None, None, None] \<and>
   ((\<exists>cell\<in>set churn. cell \<noteq> PStr ''Yes'' \<and> cell \<noteq> PStr ''No'') \<longrightarrow>
      training_run shuffle fit_and_save churn = Inl (Exn ValueError ''Input y contains NaN.'')) \<and>
   ((\<forall>cell\<in>set churn. cell = PStr ''Yes'' \<or> cell = PStr ''No'') \<longrightarrow>
      training_run shuffle fit_and_save churn =
        (case shuffle (map_churn churn) of Inl x \<Rightarrow> Inl x | Inr idx \<Rightarrow> fit_and_save idx))"
proof (intro conjI impI)
  show "map_churn churn =
     map (\<lambda>cell. if cell = PStr ''Yes'' then Some 1
                  else if cell = PStr ''No'' then Some 0 else None) churn"
    by (rule map_churn_cell)
  show "length (map_churn churn) = length churn"
    by (simp add: map_churn_def series_map_def)
  show "map_churn [PStr ''Yes'', PStr ''No'', PStr ''yes'', PStr ''YES'', PStr ''no'',
              PStr '' Yes'', PStr ''No '', PStr '''', PNone, PInt 1, PBool True] =
     [Some 1, Some 0, None, None, None, None, None, None, None, None, None]"
    by (simp add: map_churn_def series_map_def)
next
  assume "\<exists>cell\<in>set churn. cell \<noteq> PStr ''Yes'' \<and> cell \<noteq> PStr ''No''"
  then have "None \<in> set (map_churn churn)" by (simp add: map_churn_None)
  then show "training_run shuffle fit_and_save churn =
               Inl (Exn ValueError ''Input y contains NaN.'')"
    by (simp add: training_run_def stratified_split_def)
next
  assume "\<forall>cell\<in>set churn. cell = PStr ''Yes'' \<or> cell = PStr ''No''"
  then have "None \<notin> set (map_churn churn)" by (auto simp: map_churn_None)
  then show "training_run shuffle fit_and_save churn =
        (case shuffle (map_churn churn) of Inl x \<Rightarrow> Inl x | Inr idx \<Rightarrow> fit_and_save idx)"
    by (simp add: training_run_def stratified_split_def)
qed

theorem churn_label_mapping_witness:
  "PStr ''yes'' \<in> set [PStr ''Yes'', PStr ''No'', PStr ''yes''] \<and>
   training_run (\<lambda>y. Inr ([0, 1], [2])) (\<lambda>idx. Inr ()) [PStr ''Yes'', PStr ''No'', PStr ''yes''] =
     Inl (Exn ValueError ''Input y contains NaN.'') \<and>
   training_run (\<lambda>y. Inr ([0, 1], [2])) (\<lambda>idx. Inr ()) [PStr ''Yes'', PStr ''No'', PStr ''Yes''] =
     Inr ()"
proof -
  have h1: "\<exists>cell\<in>set [PStr ''Yes'', PStr ''No'', PStr ''yes''].
              cell \<noteq> PStr ''Yes'' \<and> cell \<noteq> PStr ''No''"
    by simp
  have h2: "\<forall>cell\<in>set [PStr ''Yes'', PStr ''No'', PStr ''Yes''].
              cell = PStr ''Yes'' \<or> cell = PStr ''No''"
    by simp
  note T1 = churn_label_mapping[of "[PStr ''Yes'', PStr ''No'', PStr ''yes'']"
              "\<lambda>y. Inr ([0, 1], [2])" "\<lambda>idx. Inr ()"]
  note T2 = churn_label_mapping[of "[PStr ''Yes'', PStr ''No'', PStr ''Yes'']"
              "\<lambda>y. Inr ([0, 1], [2])" "\<lambda>idx. Inr ()"]
  from T1 h1 have a: "training_run (\<lambda>y. Inr ([0, 1], [2])) (\<lambda>idx. Inr ())
                        [PStr ''Yes'', PStr ''No'', PStr ''yes''] =
                      Inl (Exn ValueError ''Input y contains NaN.'')"
    by blast
  from T2 h2 have b: "training_run (\<lambda>y. Inr ([0, 1], [2])) (\<lambda>idx. Inr ())
                        [PStr ''Yes'', PStr ''No'', PStr ''Yes''] = Inr ()"
    by simp
  from a b show ?thesis by simp
qed

text \<open>
  The claim as written fails: a column with the label \<open>yes\<close> is mapped without an
  error, to a missing value, but the training run on it ends with an exception, even
  where the shuffle and the fit would succeed.
\<close>

theorem malformed_label_counterexample:
  "map_churn [PStr ''Yes'', PStr ''No'', PStr ''yes''] = [Some 1, Some 0, None] \<and>
   training_run (\<lambda>y. Inr ([0, 1], [2])) (\<lambda>idx. Inr ()) [PStr ''Yes'', PStr ''No'', PStr ''yes''] =
     Inl (Exn ValueError ''Input y contains NaN.'')"
  by (simp add: training_run_def stratified_split_def map_churn_def series_map_def)


subsection \<open>Values unseen during training\<close>

lemma onehot_args_final_model: "onehot_args (final_model nums cats) = (''ignore'', ''first'')"
  by (simp add: onehot_args_def final_model_def build_pipeline_def)

lemma one_hot_ignore: "\<exists>block. one_hot ''ignore'' dr vocabulary v = Inr block"
  by (simp add: one_hot_def Let_def)

lemma encode_cats_ignore: "\<exists>blocks. encode_cats (''ignore'', dr) stats vals = Inr blocks"
proof (induction stats)
  case Nil
  show ?case by simp
next
  case (Cons s stats)
  obtain a mf vocabulary where s: "s = (a, mf, vocabulary)" by (cases s) auto
  obtain block where b: "one_hot ''ignore'' dr vocabulary
      (case vals a of None \<Rightarrow> mf | Some x \<Rightarrow> x) = Inr block"
    using one_hot_ignore by blast
  from Cons obtain blocks where "encode_cats (''ignore'', dr) stats vals = Inr blocks" by blast
  with s b show ?case by (simp add: encode_cat_def)
qed

lemma churn_probability_bounds: "0 \<le> churn_probability f xs \<and> churn_probability f xs \<le> 1"
proof -
  have "0 < exp (- (intercept f + sum_list (map2 (*) (coef f) xs)))" by simp
  then show ?thesis
    unfolding churn_probability_def by (simp add: add_pos_pos less_imp_le)
qed

text \<open>An encoder built with another policy does raise on an unseen value.\<close>

lemma strict_encoder_raises:
  "v \<notin> set vocabulary \<Longrightarrow> hu \<noteq> ''ignore'' \<Longrightarrow> \<exists>x. one_hot hu dr vocabulary v = Inl x"
  by (simp add: one_hot_def Let_def)

text \<open>
  C4. For the estimator the training script builds, whatever statistics the fit learned
  and whatever the record holds, the transform raises nothing, the artifact yields a
  label 0 or 1 and a probability in [0,1]; and a categorical value that is not in the
  vocabulary of its attribute is encoded as zeros, one for each category of the
  vocabulary but the dropped first.
\<close>

theorem unseen_category_tolerated:
  "(v \<notin> set vocabulary \<longrightarrow>
      encode_cat (onehot_args (final_model nums cats)) (mf, vocabulary) (Some v) =
        Inr (replicate (length vocabulary - 1) 0)) \<and>
   (\<exists>xs. transform (final_model nums cats) f r = Inr xs \<and>
         fitted_predict_proba (final_model nums cats) f r = Inr (churn_probability f xs) \<and>
         0 \<le> churn_probability f xs \<and> churn_probability f xs \<le> 1 \<and>
         (\<exists>c. fitted_predict (final_model nums cats) f r = Inr c \<and> (c = 0 \<or> c = 1)))"
proof (intro conjI impI)
  assume "v \<notin> set vocabulary"
  then show "encode_cat (onehot_args (final_model nums cats)) (mf, vocabulary) (Some v) =
        Inr (replicate (length vocabulary - 1) 0)"
    by (simp add: onehot_args_final_model encode_cat_def one_hot_def map_replicate_const)
next
  obtain blocks where b: "encode_cats (''ignore'', ''first'') (cat_stats f) (cat_values r) = Inr blocks"
    using encode_cats_ignore by blast
  define xs where "xs = map (\<lambda>(a, s). encode_num s (num_values r a)) (num_stats f) @ blocks"
  have t: "transform (final_model nums cats) f r = Inr xs"
    by (simp add: transform_def onehot_args_final_model b xs_def)
  have p: "fitted_predict_proba (final_model nums cats) f r = Inr (churn_probability f xs)"
    by (simp add: fitted_predict_proba_def t)
  have c: "\<exists>c. fitted_predict (final_model nums cats) f r = Inr c \<and> (c = 0 \<or> c = 1)"
    by (simp add: fitted_predict_def t)
  from t p c churn_probability_bounds[of f xs]
  show "\<exists>xs. transform (final_model nums cats) f r = Inr xs \<and>
         fitted_predict_proba (final_model nums cats) f r = Inr (churn_probability f xs) \<and>
         0 \<le> churn_probability f xs \<and> churn_probability f xs \<le> 1 \<and>
         (\<exists>c. fitted_predict (final_model nums cats) f r = Inr c \<and> (c = 0 \<or> c = 1))"
    by blast
qed

theorem unseen_category_tolerated_witness:
  "''Weekly'' \<notin> set [''Month-to-month'', ''One year'', ''Two year''] \<and>
   encode_cat (onehot_args (final_model [''tenure''] [''Contract'']))
       (''Month-to-month'', [''Month-to-month'', ''One year'', ''Two year'']) (Some ''Weekly'') =
     Inr [0, 0] \<and>
   transform (final_model [''tenure''] [''Contract'']) small_fit unseen_customer = Inr [-1, 0, 0]"
proof -
  have h: "''Weekly'' \<notin> set [''Month-to-month'', ''One year'', ''Two year'']" by simp
  have t: "transform (final_model [''tenure''] [''Contract'']) small_fit unseen_customer
             = Inr [-1, 0, 0]"
    by (simp add: transform_def onehot_args_final_model small_fit_def unseen_customer_def
          encode_cat_def one_hot_def encode_num_def)
  from unseen_category_tolerated[of "''Weekly''" "[''Month-to-month'', ''One year'', ''Two year'']"
         "[''tenure'']" "[''Contract'']" "''Month-to-month''" small_fit unseen_customer] h t
  show ?thesis by (simp add: numeral_2_eq_2)
qed

end
